theory Spec2Isabelle
  imports Main "HOL-Library.Word"
begin

section \<open>Data model of \<open>Renderer.cpp\<close>\<close>

text \<open>
  \<open>UINT\<close> is a 32-bit and \<open>UINT64\<close> a 64-bit unsigned integer; arithmetic on them wraps.
  Device objects (command allocators, fences, events, the command list) are referred to
  by handles; handle \<open>0\<close> of an event is the null \<open>HANDLE\<close>.
\<close>

type_synonym UINT = "32 word"
type_synonym UINT64 = "64 word"
type_synonym handle = nat

text \<open>
  \<open>struct FrameResources\<close>. \<open>commandAllocator\<close> is a \<open>unique_ptr\<close> and \<open>frameFence\<close> a
  \<open>ComPtr\<close>: both may be null (\<open>None\<close>).
\<close>

record FrameResources =
  commandAllocator :: "handle option"
  frameFence :: "handle option"
  fenceEvent :: handle
  fenceValue :: UINT64

text \<open>Modelled from the spec: the declaration of \<open>struct FrameResources\<close> is in \<open>Renderer.h\<close>,
  which is not among the sources. A value-initialised slot, as \<open>vector::resize\<close> creates
  it, has null pointers and handle, and \<open>fenceValue = 0\<close>, the sentinel of a slot that was
  never submitted (spec section 3; \<open>WaitForFrame\<close> and \<open>IsFrameComplete\<close> test for it).
\<close>

definition FrameResources_default :: FrameResources where
  "FrameResources_default =
     \<lparr>commandAllocator = None, frameFence = None, fenceEvent = 0, fenceValue = 0\<rparr>"

text \<open>Modelled from the spec: the member initialiser of \<open>m_nextFenceValue\<close> is in \<open>Renderer.h\<close>,
  which is not among the sources. The global fence value counter starts at 1, 0 being
  reserved for slots that were never submitted (spec section 3).
\<close>

definition m_nextFenceValue_initial :: UINT64 where
  "m_nextFenceValue_initial = 1"

text \<open>
  The swap chain is an external collaborator (\<open>SwapChain.cpp\<close> is not among the sources).
  Of its state the renderer reads the buffer count; the current back buffer index and the
  outcome of its operations are inputs of the calls that use them.
\<close>

record SwapChain =
  GetBufferCount :: UINT

record Renderer =
  m_swapChain :: "SwapChain option"
  m_commandList :: handle
  m_frameResources :: "FrameResources list"
  m_currentFrameIndex :: UINT
  m_nextFenceValue :: UINT64

record EngineConfig =
  enableDebugLayer :: bool
  windowWidth :: UINT
  windowHeight :: UINT
  backBufferCount :: UINT
  vsync :: bool

subsection \<open>The device: fences, the GPU, and the calls made on collaborators\<close>

datatype resource_state = D3D12_RESOURCE_STATE_PRESENT | D3D12_RESOURCE_STATE_RENDER_TARGET

text \<open>The diagnostics the renderer prints, one constructor for each \<open>printf\<close>.\<close>

datatype message =
    Failed_to_create_command_allocator nat
  | Failed_to_create_fence nat
  | Failed_to_create_fence_event nat
  | Failed_to_reset_command_allocator UINT
  | Failed_to_reset_command_list UINT
  | Failed_to_close_command_list UINT
  | Failed_to_signal_fence UINT
  | SetEventOnCompletion_failed UINT
  | Failed_to_reconfigure_swap_chain
  | Failed_to_reinitialize_frame_resources

text \<open>The calls the renderer makes on its collaborators, in the order it makes them.\<close>

datatype call =
    ResourceManager_BeginFrame
  | ResourceManager_EndFrame
  | CommandAllocator_Initialize handle
  | CreateFence handle
  | CreateEvent handle
  | CommandAllocator_Reset handle
  | CommandList_Reset handle handle
  | TransitionBarrier resource_state resource_state
  | CommandList_Close handle
  | ExecuteCommandLists handle
  | Queue_Signal "handle option" UINT64
  | SetEventOnCompletion handle UINT64 handle
  | WaitForSingleObject handle
  | SwapChain_Present bool
  | SwapChain_Reconfigure UINT UINT UINT
  | Printf message

text \<open>
  \<open>completedValue d f\<close> is what \<open>GetCompletedValue\<close> of the fence \<open>f\<close> returns.
  \<open>gpuSchedule\<close> lists the fence updates the GPU performs, in this order, while the CPU
  thread is blocked in \<open>WaitForSingleObject\<close>: the GPU runs asynchronously, so the
  schedule is an input. \<open>calls\<close> records the calls made so far, the latest last.
\<close>

record Device =
  completedValue :: "handle \<Rightarrow> UINT64"
  gpuSchedule :: "(handle \<times> UINT64) list"
  nextHandle :: handle
  calls :: "call list"

definition emit :: "call \<Rightarrow> Device \<Rightarrow> Device" where
  "emit c d = d\<lparr>calls := calls d @ [c]\<rparr>"

text \<open>The GPU writes the value \<open>v\<close> to the fence \<open>f\<close>.\<close>

definition gpu_complete :: "handle \<Rightarrow> UINT64 \<Rightarrow> Device \<Rightarrow> Device" where
  "gpu_complete f v d = d\<lparr>completedValue := (completedValue d)(f := v)\<rparr>"

text \<open>
  A call either returns, or never returns (the thread stays blocked; the device at that
  point is kept), or has undefined behaviour in C++ (\<open>operator[]\<close> out of range, a null
  pointer dereferenced).
\<close>

datatype 'a outcome = Returns 'a | Blocked Device | Undefined

text \<open>
  \<open>WaitForSingleObject(event, INFINITE)\<close> after \<open>SetEventOnCompletion(target, event)\<close> on
  the fence \<open>f\<close>: the GPU goes through its schedule, and the wait returns at the first
  update that brings \<open>f\<close> to \<open>target\<close> or beyond. With no such update it never returns.
\<close>

fun gpu_until :: "handle \<Rightarrow> UINT64 \<Rightarrow> (handle \<times> UINT64) list \<Rightarrow> (handle \<Rightarrow> UINT64)
    \<Rightarrow> bool \<times> (handle \<Rightarrow> UINT64) \<times> (handle \<times> UINT64) list" where
  "gpu_until f target [] c = (False, c, [])"
| "gpu_until f target ((g, v) # rest) c =
     (if g = f \<and> target \<le> v then (True, c(g := v), rest)
      else gpu_until f target rest (c(g := v)))"

definition WaitForSingleObject_INFINITE :: "handle \<Rightarrow> UINT64 \<Rightarrow> handle \<Rightarrow> Device \<Rightarrow> Device outcome"
  where
  "WaitForSingleObject_INFINITE f target event d =
     (let d1 = emit (WaitForSingleObject event) d in
      case gpu_until f target (gpuSchedule d1) (completedValue d1) of
        (reached, c, rest) \<Rightarrow>
          (let d2 = d1\<lparr>completedValue := c, gpuSchedule := rest\<rparr> in
           if reached then Returns d2 else Blocked d2))"

section \<open>The operations of the renderer\<close>

subsection \<open>\<open>Renderer::WaitForFrame\<close> and \<open>Renderer::IsFrameComplete\<close>\<close>

text \<open>
  \<open>setEventOk\<close> tells whether \<open>SetEventOnCompletion\<close> succeeds. The renderer itself is
  not changed by the call, so only the device is returned.
\<close>

definition WaitForFrame :: "Renderer \<Rightarrow> UINT \<Rightarrow> bool \<Rightarrow> Device \<Rightarrow> Device outcome" where
  "WaitForFrame r frameIndex setEventOk d =
     (if length (m_frameResources r) \<le> unat frameIndex then Returns d
      else
        let frame = m_frameResources r ! unat frameIndex in
        if fenceValue frame = 0 then Returns d
        else
          (case frameFence frame of
             None \<Rightarrow> Undefined
           | Some f \<Rightarrow>
               if fenceValue frame \<le> completedValue d f then Returns d
               else
                 let d1 = emit (SetEventOnCompletion f (fenceValue frame) (fenceEvent frame)) d in
                 if \<not> setEventOk
                 then Returns (emit (Printf (SetEventOnCompletion_failed frameIndex)) d1)
                 else WaitForSingleObject_INFINITE f (fenceValue frame) (fenceEvent frame) d1))"

definition IsFrameComplete :: "Renderer \<Rightarrow> Device \<Rightarrow> UINT \<Rightarrow> bool outcome" where
  "IsFrameComplete r d frameIndex =
     (if length (m_frameResources r) \<le> unat frameIndex then Returns True
      else
        let frame = m_frameResources r ! unat frameIndex in
        if fenceValue frame = 0 then Returns True
        else
          (case frameFence frame of
             None \<Rightarrow> Undefined
           | Some f \<Rightarrow> Returns (fenceValue frame \<le> completedValue d f)))"

text \<open>\<open>Renderer::WaitForAllFrames\<close>: the loop counter is a \<open>UINT\<close> compared with a \<open>size_t\<close>, so
  with \<open>2 ^ 32\<close> slots or more it would wrap and the loop would not end.\<close>

fun WaitForAllFrames_loop :: "Renderer \<Rightarrow> (UINT \<Rightarrow> bool) \<Rightarrow> nat list \<Rightarrow> Device \<Rightarrow> Device outcome"
  where
  "WaitForAllFrames_loop r setEventOk [] d = Returns d"
| "WaitForAllFrames_loop r setEventOk (i # is) d =
     (case WaitForFrame r (word_of_nat i) (setEventOk (word_of_nat i)) d of
        Returns d1 \<Rightarrow> WaitForAllFrames_loop r setEventOk is d1
      | Blocked d1 \<Rightarrow> Blocked d1
      | Undefined \<Rightarrow> Undefined)"

definition WaitForAllFrames :: "Renderer \<Rightarrow> (UINT \<Rightarrow> bool) \<Rightarrow> Device \<Rightarrow> Device outcome" where
  "WaitForAllFrames r setEventOk d =
     (if 2 ^ 32 \<le> length (m_frameResources r) then Blocked d
      else WaitForAllFrames_loop r setEventOk [0..<length (m_frameResources r)] d)"

subsection \<open>\<open>Renderer::InitializeFrameResources\<close> and \<open>Renderer::ReleaseFrameResources\<close>\<close>

text \<open>What creating the resources of one slot does: everything succeeds, or one of the
  three steps fails.\<close>

datatype creation = Created | Allocator_fails | Fence_fails | Event_fails

text \<open>\<open>vector::resize\<close>: keeps the first \<open>n\<close> elements and appends value-initialised ones.\<close>

definition resize :: "nat \<Rightarrow> FrameResources list \<Rightarrow> FrameResources list" where
  "resize n xs = take n xs @ replicate (n - length xs) FrameResources_default"

text \<open>The body of the loop for slot \<open>i\<close>: the slot as it is left, whether to go on, and
  the device.\<close>

definition InitializeFrameResources_slot ::
  "creation \<Rightarrow> nat \<Rightarrow> FrameResources \<Rightarrow> Device \<Rightarrow> bool \<times> FrameResources \<times> Device" where
  "InitializeFrameResources_slot c i frame d =
     (let a = nextHandle d;
          frame1 = frame\<lparr>commandAllocator := Some a\<rparr>;
          d1 = emit (CommandAllocator_Initialize a) (d\<lparr>nextHandle := a + 1\<rparr>) in
      if c = Allocator_fails
      then (False, frame1, emit (Printf (Failed_to_create_command_allocator i)) d1)
      else
        let f = nextHandle d1 in
        if c = Fence_fails
        then (False, frame1\<lparr>frameFence := None\<rparr>,
              emit (Printf (Failed_to_create_fence i)) (emit (CreateFence f) d1))
        else
          let frame2 = frame1\<lparr>frameFence := Some f\<rparr>;
              d2 = emit (CreateFence f)
                     (d1\<lparr>nextHandle := f + 1, completedValue := (completedValue d1)(f := 0)\<rparr>);
              e = nextHandle d2 in
          if c = Event_fails
          then (False, frame2\<lparr>fenceEvent := 0\<rparr>,
                emit (Printf (Failed_to_create_fence_event i)) (emit (CreateEvent 0) d2))
          else (True, frame2\<lparr>fenceEvent := e\<rparr>, emit (CreateEvent e) (d2\<lparr>nextHandle := e + 1\<rparr>)))"

fun InitializeFrameResources_loop ::
  "(nat \<Rightarrow> creation) \<Rightarrow> nat list \<Rightarrow> FrameResources list \<Rightarrow> Device
     \<Rightarrow> bool \<times> FrameResources list \<times> Device" where
  "InitializeFrameResources_loop cr [] frames d = (True, frames, d)"
| "InitializeFrameResources_loop cr (i # is) frames d =
     (case InitializeFrameResources_slot (cr i) i (frames ! i) d of
        (ok, frame, d1) \<Rightarrow>
          if ok then InitializeFrameResources_loop cr is (frames[i := frame]) d1
          else (False, frames[i := frame], d1))"

text \<open>The swap chain pointer is dereferenced without a check.\<close>

definition InitializeFrameResources ::
  "(nat \<Rightarrow> creation) \<Rightarrow> Renderer \<times> Device \<Rightarrow> (bool \<times> Renderer \<times> Device) outcome" where
  "InitializeFrameResources cr rd =
     (case rd of (r, d) \<Rightarrow>
        (case m_swapChain r of
           None \<Rightarrow> Undefined
         | Some sc \<Rightarrow>
             let bufferCount = unat (GetBufferCount sc);
                 frames = resize bufferCount (m_frameResources r) in
             (case InitializeFrameResources_loop cr [0..<bufferCount] frames d of
                (ok, frames1, d1) \<Rightarrow> Returns (ok, r\<lparr>m_frameResources := frames1\<rparr>, d1))))"

definition ReleaseFrameResources :: "Renderer \<Rightarrow> Renderer" where
  "ReleaseFrameResources r = r\<lparr>m_frameResources := []\<rparr>"

subsection \<open>\<open>Renderer::BeginFrame\<close>\<close>

text \<open>What the collaborators answer during one \<open>BeginFrame\<close>.\<close>

record BeginFrame_env =
  GetCurrentBackBufferIndex :: UINT
  setEventOnCompletionOk :: bool
  allocatorResetOk :: bool
  commandListResetOk :: bool

text \<open>The result is the renderer and the device, with the command list returned
  (\<open>None\<close> for \<open>nullptr\<close>).\<close>

definition BeginFrame ::
  "BeginFrame_env \<Rightarrow> Renderer \<times> Device \<Rightarrow> (handle option \<times> Renderer \<times> Device) outcome" where
  "BeginFrame env rd =
     (case rd of (r0, d0) \<Rightarrow>
        let d1 = emit ResourceManager_BeginFrame d0 in
        (case m_swapChain r0 of
          None \<Rightarrow> Undefined
        | Some sc \<Rightarrow>
            let r = r0\<lparr>m_currentFrameIndex := GetCurrentBackBufferIndex env\<rparr> in
            if length (m_frameResources r) \<le> unat (m_currentFrameIndex r) then Undefined
            else
              let currentFrame = m_frameResources r ! unat (m_currentFrameIndex r) in
              (case WaitForFrame r (m_currentFrameIndex r) (setEventOnCompletionOk env) d1 of
                Blocked d2 \<Rightarrow> Blocked d2
              | Undefined \<Rightarrow> Undefined
              | Returns d2 \<Rightarrow>
                  (case commandAllocator currentFrame of
                     None \<Rightarrow> Undefined
                   | Some a \<Rightarrow>
                       let d3 = emit (CommandAllocator_Reset a) d2 in
                       if \<not> allocatorResetOk env
                       then Returns (None, r,
                              emit (Printf (Failed_to_reset_command_allocator (m_currentFrameIndex r))) d3)
                       else
                         let d4 = emit (CommandList_Reset (m_commandList r) a) d3 in
                         if \<not> commandListResetOk env
                         then Returns (None, r,
                                emit (Printf (Failed_to_reset_command_list (m_currentFrameIndex r))) d4)
                         else
                           Returns (Some (m_commandList r), r,
                             emit (TransitionBarrier D3D12_RESOURCE_STATE_PRESENT
                                     D3D12_RESOURCE_STATE_RENDER_TARGET) d4)))))"

subsection \<open>\<open>Renderer::EndFrame\<close>\<close>

record EndFrame_env =
  closeOk :: bool
  signalOk :: bool
  presentOk :: bool

definition EndFrame ::
  "EndFrame_env \<Rightarrow> EngineConfig \<Rightarrow> Renderer \<times> Device \<Rightarrow> (Renderer \<times> Device) outcome" where
  "EndFrame env config rd =
     (case rd of (r, d0) \<Rightarrow>
        if length (m_frameResources r) \<le> unat (m_currentFrameIndex r) then Undefined
        else
          let currentFrame = m_frameResources r ! unat (m_currentFrameIndex r) in
          (case m_swapChain r of
            None \<Rightarrow> Undefined
          | Some sc \<Rightarrow>
              let d1 = emit (TransitionBarrier D3D12_RESOURCE_STATE_RENDER_TARGET
                               D3D12_RESOURCE_STATE_PRESENT) d0;
                  d2 = emit (CommandList_Close (m_commandList r)) d1 in
              if \<not> closeOk env
              then Returns (r, emit (Printf (Failed_to_close_command_list (m_currentFrameIndex r))) d2)
              else
                let d3 = emit (ExecuteCommandLists (m_commandList r)) d2;
                    currentFenceValue = m_nextFenceValue r;
                    r1 = r\<lparr>m_nextFenceValue := m_nextFenceValue r + 1\<rparr>;
                    r2 = r1\<lparr>m_frameResources := (m_frameResources r1)
                            [unat (m_currentFrameIndex r1) :=
                               currentFrame\<lparr>fenceValue := currentFenceValue\<rparr>]\<rparr>;
                    d4 = emit (Queue_Signal (frameFence currentFrame) currentFenceValue) d3;
                    d5 = (if \<not> signalOk env
                          then emit (Printf (Failed_to_signal_fence (m_currentFrameIndex r2))) d4
                          else d4);
                    d6 = emit ResourceManager_EndFrame d5 in
                Returns (r2, emit (SwapChain_Present (vsync config)) d6)))"

subsection \<open>\<open>Renderer::OnReconfigure\<close>\<close>

text \<open>What the collaborators answer during one \<open>OnReconfigure\<close>: whether each wait
  registration succeeds, whether \<open>SwapChain::Reconfigure\<close> succeeds and the swap chain it
  leaves, and what creating each slot does.\<close>

record OnReconfigure_env =
  waitSetEventOk :: "UINT \<Rightarrow> bool"
  reconfigureOk :: bool
  reconfigured :: SwapChain
  creations :: "nat \<Rightarrow> creation"

definition OnReconfigure ::
  "OnReconfigure_env \<Rightarrow> UINT \<Rightarrow> UINT \<Rightarrow> UINT \<Rightarrow> Renderer \<times> Device \<Rightarrow> (Renderer \<times> Device) outcome"
  where
  "OnReconfigure env width height bufferCount rd =
     (case rd of (r, d0) \<Rightarrow>
        (case m_swapChain r of
          None \<Rightarrow> Returns (r, d0)
        | Some sc \<Rightarrow>
            (case WaitForAllFrames r (waitSetEventOk env) d0 of
               Blocked d1 \<Rightarrow> Blocked d1
             | Undefined \<Rightarrow> Undefined
             | Returns d1 \<Rightarrow>
                 let oldBufferCount = GetBufferCount sc;
                     newBufferCount = (if bufferCount = 0 then oldBufferCount else bufferCount);
                     d2 = emit (SwapChain_Reconfigure width height bufferCount) d1;
                     r1 = r\<lparr>m_swapChain := Some (reconfigured env)\<rparr> in
                 if \<not> reconfigureOk env
                 then Returns (r1, emit (Printf Failed_to_reconfigure_swap_chain) d2)
                 else if newBufferCount \<noteq> oldBufferCount
                 then
                   (case InitializeFrameResources (creations env) (ReleaseFrameResources r1, d2) of
                      Blocked d3 \<Rightarrow> Blocked d3
                    | Undefined \<Rightarrow> Undefined
                    | Returns (ok, r2, d3) \<Rightarrow>
                        if \<not> ok
                        then Returns (r2, emit (Printf Failed_to_reinitialize_frame_resources) d3)
                        else Returns (r2, d3))
                 else Returns (r1, d2))))"

subsection \<open>The constructor \<open>Renderer::Renderer\<close>\<close>

text \<open>
  What the collaborators answer during construction. The swap chain is created by its own
  constructor, which is not among the sources: the swap chain it leaves is an input, and
  so is the initial \<open>m_currentFrameIndex\<close>, whose member initialiser is in \<open>Renderer.h\<close>.
\<close>

record Renderer_env =
  deviceInitializeOk :: bool
  commandManagerInitializeOk :: bool
  resourceManagerInitializeOk :: bool
  swapChainCreated :: SwapChain
  swapChainIsInitialized :: bool
  frameCreations :: "nat \<Rightarrow> creation"
  commandListInitializeOk :: bool
  m_currentFrameIndex_initial :: UINT

datatype 'a construction = Constructed 'a | Throws string | Construction_Undefined

definition Renderer_ctor ::
  "Renderer_env \<Rightarrow> EngineConfig \<Rightarrow> Device \<Rightarrow> (Renderer \<times> Device) construction" where
  "Renderer_ctor env config d =
     (if \<not> deviceInitializeOk env then Throws ''Failed to initialize device''
      else if \<not> commandManagerInitializeOk env then Throws ''Failed to create command queues''
      else if \<not> resourceManagerInitializeOk env then Throws ''Failed to initialize resource manager''
      else if \<not> swapChainIsInitialized env then Throws ''Failed to create swap chain''
      else
        let r0 = \<lparr>m_swapChain = Some (swapChainCreated env), m_commandList = 0,
                  m_frameResources = [], m_currentFrameIndex = m_currentFrameIndex_initial env,
                  m_nextFenceValue = m_nextFenceValue_initial\<rparr> in
        (case InitializeFrameResources (frameCreations env) (r0, d) of
          Returns (ok, r1, d1) \<Rightarrow>
            if \<not> ok then Throws ''Failed to initialize frame resources''
            else if m_frameResources r1 = [] then Construction_Undefined
            else
              let cl = nextHandle d1 in
              if \<not> commandListInitializeOk env then Throws ''Failed to create command list''
              else Constructed (r1\<lparr>m_commandList := cl\<rparr>, d1\<lparr>nextHandle := cl + 1\<rparr>)
        | _ \<Rightarrow> Construction_Undefined))"

section \<open>Runs of the renderer\<close>

text \<open>
  The application calls the operations one after the other on a single thread; between
  two calls the GPU may complete work (\<open>Op_GPU\<close>). A run stops at the first call that
  does not return.
\<close>

datatype op =
    Op_BeginFrame BeginFrame_env
  | Op_EndFrame EndFrame_env EngineConfig
  | Op_OnReconfigure OnReconfigure_env UINT UINT UINT
  | Op_GPU handle UINT64

fun step :: "op \<Rightarrow> Renderer \<times> Device \<Rightarrow> (Renderer \<times> Device) outcome" where
  "step (Op_BeginFrame env) rd =
     (case BeginFrame env rd of
        Returns (cl, r, d) \<Rightarrow> Returns (r, d)
      | Blocked d \<Rightarrow> Blocked d
      | Undefined \<Rightarrow> Undefined)"
| "step (Op_EndFrame env config) rd = EndFrame env config rd"
| "step (Op_OnReconfigure env width height bufferCount) rd =
     OnReconfigure env width height bufferCount rd"
| "step (Op_GPU f v) rd = Returns (fst rd, gpu_complete f v (snd rd))"

fun run :: "op list \<Rightarrow> Renderer \<times> Device \<Rightarrow> (Renderer \<times> Device) outcome" where
  "run [] rd = Returns rd"
| "run (x # xs) rd =
     (case step x rd of
        Returns rd1 \<Rightarrow> run xs rd1
      | Blocked d \<Rightarrow> Blocked d
      | Undefined \<Rightarrow> Undefined)"

text \<open>A frame is a \<open>BeginFrame\<close> followed by an \<open>EndFrame\<close>.\<close>

fun frame_ops :: "(BeginFrame_env \<times> EndFrame_env \<times> EngineConfig) list \<Rightarrow> op list" where
  "frame_ops [] = []"
| "frame_ops ((b, e, config) # fs) = Op_BeginFrame b # Op_EndFrame e config # frame_ops fs"

text \<open>The slot a frame runs in: the back buffer index its \<open>BeginFrame\<close> reads.\<close>

definition frame_index :: "BeginFrame_env \<times> EndFrame_env \<times> EngineConfig \<Rightarrow> UINT" where
  "frame_index f = GetCurrentBackBufferIndex (fst f)"

text \<open>The fence values signalled on the queue, in the order of the calls.\<close>

fun drawn_values :: "call list \<Rightarrow> UINT64 list" where
  "drawn_values [] = []"
| "drawn_values (Queue_Signal f v # cs) = v # drawn_values cs"
| "drawn_values (c # cs) = drawn_values cs"

text \<open>The calls made between the device \<open>d\<close> and the later device \<open>d'\<close>.\<close>

definition new_calls :: "Device \<Rightarrow> Device \<Rightarrow> call list" where
  "new_calls d d' = drop (length (calls d)) (calls d')"

text \<open>The diagnostics printed, in the order of the calls.\<close>

fun diagnostics :: "call list \<Rightarrow> message list" where
  "diagnostics [] = []"
| "diagnostics (Printf m # cs) = m # diagnostics cs"
| "diagnostics (c # cs) = diagnostics cs"

text \<open>A slot all of whose device objects (allocator, fence and event, where it has them)
  have handles from \<open>h0\<close> on: they were created after the device had handed out the handles
  below \<open>h0\<close>.\<close>

definition fresh_from :: "handle \<Rightarrow> FrameResources \<Rightarrow> bool" where
  "fresh_from h0 frame \<longleftrightarrow>
     (case commandAllocator frame of None \<Rightarrow> True | Some h \<Rightarrow> h0 \<le> h)
     \<and> (case frameFence frame of None \<Rightarrow> True | Some h \<Rightarrow> h0 \<le> h)
     \<and> (fenceEvent frame = 0 \<or> h0 \<le> fenceEvent frame)"



section \<open>Example states\<close>

text \<open>
  A renderer with two slots as the constructor leaves it on a device that has handed out
  no handle yet, and the same renderer after two frames, the first in slot 0 and the
  second in slot 1, with nothing completed by the GPU.
\<close>

definition ex_device0 :: Device where
  "ex_device0 = \<lparr>completedValue = (\<lambda>_. 0), gpuSchedule = [], nextHandle = 1, calls = []\<rparr>"

definition ex_config :: EngineConfig where
  "ex_config = \<lparr>enableDebugLayer = False, windowWidth = 800, windowHeight = 600,
                 backBufferCount = 2, vsync = True\<rparr>"

definition ex_ctor_env :: Renderer_env where
  "ex_ctor_env =
     \<lparr>deviceInitializeOk = True, commandManagerInitializeOk = True,
      resourceManagerInitializeOk = True, swapChainCreated = \<lparr>GetBufferCount = 2\<rparr>,
      swapChainIsInitialized = True, frameCreations = (\<lambda>_. Created),
      commandListInitializeOk = True, m_currentFrameIndex_initial = 0\<rparr>"

definition ex_pool :: "FrameResources list" where
  "ex_pool =
     [\<lparr>commandAllocator = Some 1, frameFence = Some 2, fenceEvent = 3, fenceValue = 0\<rparr>,
      \<lparr>commandAllocator = Some 4, frameFence = Some 5, fenceEvent = 6, fenceValue = 0\<rparr>]"

definition ex_renderer :: Renderer where
  "ex_renderer =
     \<lparr>m_swapChain = Some \<lparr>GetBufferCount = 2\<rparr>, m_commandList = 7,
      m_frameResources = ex_pool, m_currentFrameIndex = 0, m_nextFenceValue = 1\<rparr>"

definition ex_device :: Device where
  "ex_device =
     \<lparr>completedValue = (\<lambda>_. 0), gpuSchedule = [], nextHandle = 8,
      calls = [CommandAllocator_Initialize 1, CreateFence 2, CreateEvent 3,
               CommandAllocator_Initialize 4, CreateFence 5, CreateEvent 6]\<rparr>"

definition ex_begin :: "UINT \<Rightarrow> BeginFrame_env" where
  "ex_begin i = \<lparr>GetCurrentBackBufferIndex = i, setEventOnCompletionOk = True,
                 allocatorResetOk = True, commandListResetOk = True\<rparr>"

definition ex_end :: EndFrame_env where
  "ex_end = \<lparr>closeOk = True, signalOk = True, presentOk = True\<rparr>"

definition ex_pool_busy :: "FrameResources list" where
  "ex_pool_busy =
     [\<lparr>commandAllocator = Some 1, frameFence = Some 2, fenceEvent = 3, fenceValue = 1\<rparr>,
      \<lparr>commandAllocator = Some 4, frameFence = Some 5, fenceEvent = 6, fenceValue = 2\<rparr>]"

definition ex_renderer_busy :: Renderer where
  "ex_renderer_busy =
     \<lparr>m_swapChain = Some \<lparr>GetBufferCount = 2\<rparr>, m_commandList = 7,
      m_frameResources = ex_pool_busy, m_currentFrameIndex = 1, m_nextFenceValue = 3\<rparr>"

definition ex_frame_calls :: "handle \<Rightarrow> handle \<Rightarrow> UINT64 \<Rightarrow> call list" where
  "ex_frame_calls a f v =
     [ResourceManager_BeginFrame, CommandAllocator_Reset a, CommandList_Reset 7 a,
      TransitionBarrier D3D12_RESOURCE_STATE_PRESENT D3D12_RESOURCE_STATE_RENDER_TARGET,
      TransitionBarrier D3D12_RESOURCE_STATE_RENDER_TARGET D3D12_RESOURCE_STATE_PRESENT,
      CommandList_Close 7, ExecuteCommandLists 7, Queue_Signal (Some f) v,
      ResourceManager_EndFrame, SwapChain_Present True]"

definition ex_device_busy :: Device where
  "ex_device_busy =
     ex_device\<lparr>calls := calls ex_device @ ex_frame_calls 1 2 1 @ ex_frame_calls 4 5 2\<rparr>"

definition ex_reconfigure_env :: OnReconfigure_env where
  "ex_reconfigure_env =
     \<lparr>waitSetEventOk = (\<lambda>_. True), reconfigureOk = True,
      reconfigured = \<lparr>GetBufferCount = 3\<rparr>, creations = (\<lambda>_. Created)\<rparr>"

definition ex_renderer_reconfigured :: Renderer where
  "ex_renderer_reconfigured =
     \<lparr>m_swapChain = Some \<lparr>GetBufferCount = 3\<rparr>, m_commandList = 7,
      m_frameResources =
        [\<lparr>commandAllocator = Some 8, frameFence = Some 9, fenceEvent = 10, fenceValue = 0\<rparr>,
         \<lparr>commandAllocator = Some 11, frameFence = Some 12, fenceEvent = 13, fenceValue = 0\<rparr>,
         \<lparr>commandAllocator = Some 14, frameFence = Some 15, fenceEvent = 16, fenceValue = 0\<rparr>],
      m_currentFrameIndex = 1, m_nextFenceValue = 3\<rparr>"

definition ex_device_reconfigured :: Device where
  "ex_device_reconfigured =
     \<lparr>completedValue = (\<lambda>_. 0)(2 := 1, 5 := 2), gpuSchedule = [], nextHandle = 17,
      calls = calls ex_device_busy @
        [SetEventOnCompletion 2 1 3, WaitForSingleObject 3,
         SetEventOnCompletion 5 2 6, WaitForSingleObject 6,
         SwapChain_Reconfigure 1024 768 3,
         CommandAllocator_Initialize 8, CreateFence 9, CreateEvent 10,
         CommandAllocator_Initialize 11, CreateFence 12, CreateEvent 13,
         CommandAllocator_Initialize 14, CreateFence 15, CreateEvent 16]\<rparr>"


text \<open>
  A frame in slot 0 of the example renderer, followed by the GPU completing it: the fence of
  slot 0 (handle 2) reaches the value that the \<open>j\<close>-th frame from the start signals.
\<close>

definition frame_then_complete :: "nat \<Rightarrow> op list" where
  "frame_then_complete j =
     [Op_BeginFrame (ex_begin 0), Op_EndFrame ex_end ex_config, Op_GPU 2 (1 + word_of_nat j)]"

section \<open>Properties\<close>

subsection \<open>Auxiliary facts\<close>

lemma drawn_values_append [simp]:
  "drawn_values (xs @ ys) = drawn_values xs @ drawn_values ys"
  by (induction xs rule: drawn_values.induct) simp_all

lemma diagnostics_append [simp]:
  "diagnostics (xs @ ys) = diagnostics xs @ diagnostics ys"
  by (induction xs rule: diagnostics.induct) simp_all

lemma new_calls_emit [simp]: "new_calls d (d\<lparr>calls := calls d @ cs\<rparr>) = cs"
  by (simp add: new_calls_def)

lemmas ex_defs =
  ex_device0_def ex_config_def ex_ctor_env_def ex_pool_def ex_renderer_def ex_device_def
  ex_begin_def ex_end_def ex_pool_busy_def ex_renderer_busy_def ex_frame_calls_def
  ex_device_busy_def ex_reconfigure_env_def

lemma upt_2: "[0..<2] = [0, 1]"
  by (simp add: upt_conv_Cons)

lemma upt_3: "[0..<3] = [0, 1, 2]"
  by (simp add: upt_conv_Cons)

lemma replicate_2: "replicate 2 x = [x, x]"
  by (simp add: numeral_2_eq_2)

lemma replicate_3: "replicate 3 x = [x, x, x]"
  by (simp add: numeral_3_eq_3)

lemma ex_ctor:
  "Renderer_ctor ex_ctor_env ex_config ex_device0 = Constructed (ex_renderer, ex_device)"
  by (simp add: ex_defs Renderer_ctor_def InitializeFrameResources_def resize_def
      InitializeFrameResources_slot_def FrameResources_default_def m_nextFenceValue_initial_def
      emit_def Let_def upt_2 replicate_2 fun_eq_iff)

lemma ex_two_frames:
  "run [Op_BeginFrame (ex_begin 0), Op_EndFrame ex_end ex_config,
        Op_BeginFrame (ex_begin 1), Op_EndFrame ex_end ex_config] (ex_renderer, ex_device)
     = Returns (ex_renderer_busy, ex_device_busy)"
  by (simp add: ex_defs BeginFrame_def EndFrame_def WaitForFrame_def emit_def Let_def)

lemma ex_reconfigure:
  "OnReconfigure ex_reconfigure_env 1024 768 3
        (ex_renderer_busy, ex_device_busy\<lparr>gpuSchedule := [(2, 1), (5, 2)]\<rparr>)
       = Returns (ex_renderer_reconfigured, ex_device_reconfigured)"
  by (simp add: ex_defs ex_renderer_reconfigured_def ex_device_reconfigured_def
        OnReconfigure_def WaitForAllFrames_def WaitForFrame_def
        WaitForSingleObject_INFINITE_def InitializeFrameResources_def
        ReleaseFrameResources_def InitializeFrameResources_slot_def resize_def
        FrameResources_default_def emit_def Let_def upt_2 upt_3 replicate_3 fun_eq_iff)


subsection \<open>Waiting and initialisation\<close>

lemma gpu_until_cases:
  "gpu_until f target sched c = (reached, c', rest) \<Longrightarrow>
     (reached \<longrightarrow> target \<le> c' f) \<and>
     (\<not> reached \<longleftrightarrow> (\<forall>(g, v) \<in> set sched. \<not> (g = f \<and> target \<le> v)))"
  by (induction f target sched c rule: gpu_until.induct) (auto split: if_splits)

lemma WaitForFrame_Returns:
  "WaitForFrame r i ok d = Returns d' \<Longrightarrow>
     nextHandle d' = nextHandle d \<and> drawn_values (calls d') = drawn_values (calls d)"
  by (auto simp: WaitForFrame_def WaitForSingleObject_INFINITE_def emit_def Let_def
           split: if_splits option.splits prod.splits)

lemma WaitForAllFrames_loop_Returns:
  "WaitForAllFrames_loop r ok is d = Returns d' \<Longrightarrow>
     nextHandle d' = nextHandle d \<and> drawn_values (calls d') = drawn_values (calls d)"
proof (induction "is" arbitrary: d)
  case Nil
  then show ?case by simp
next
  case (Cons i "is")
  then show ?case
    by (auto split: outcome.splits dest!: WaitForFrame_Returns)
qed

lemma WaitForAllFrames_Returns:
  "WaitForAllFrames r ok d = Returns d' \<Longrightarrow>
     nextHandle d' = nextHandle d \<and> drawn_values (calls d') = drawn_values (calls d)"
  by (auto simp: WaitForAllFrames_def split: if_splits dest!: WaitForAllFrames_loop_Returns)

lemma InitializeFrameResources_slot_props:
  assumes "InitializeFrameResources_slot c i frame d = (ok, frame', d')"
  shows "fenceValue frame' = fenceValue frame"
    and "nextHandle d \<le> nextHandle d'"
    and "drawn_values (calls d') = drawn_values (calls d)"
    and "fresh_from h0 frame \<Longrightarrow> h0 \<le> nextHandle d \<Longrightarrow> fresh_from h0 frame'"
  using assms
  by (auto simp: InitializeFrameResources_slot_def Let_def emit_def fresh_from_def
           split: if_splits)

lemma InitializeFrameResources_loop_drawn:
  "InitializeFrameResources_loop cr is frames d = (ok, frames', d') \<Longrightarrow>
     drawn_values (calls d') = drawn_values (calls d)"
proof (induction "is" arbitrary: frames d)
  case Nil
  then show ?case by simp
next
  case (Cons i "is")
  obtain ok1 frame1 d1 where
    s: "InitializeFrameResources_slot (cr i) i (frames ! i) d = (ok1, frame1, d1)"
    by (cases "InitializeFrameResources_slot (cr i) i (frames ! i) d") auto
  show ?case
    using Cons.prems Cons.IH[of "frames[i := frame1]" d1]
      InitializeFrameResources_slot_props(3)[OF s] s
    by (cases ok1) simp_all
qed

lemma InitializeFrameResources_loop_props:
  assumes "InitializeFrameResources_loop cr is frames d = (ok, frames', d')"
    and "\<forall>frame \<in> set frames. fenceValue frame = 0 \<and> fresh_from h0 frame"
    and "h0 \<le> nextHandle d"
    and "\<forall>i \<in> set is. i < length frames"
  shows "length frames' = length frames
         \<and> (\<forall>frame \<in> set frames'. fenceValue frame = 0 \<and> fresh_from h0 frame)"
  using assms
proof (induction "is" arbitrary: frames d)
  case Nil
  then show ?case by simp
next
  case (Cons i "is")
  obtain ok1 frame1 d1 where
    s: "InitializeFrameResources_slot (cr i) i (frames ! i) d = (ok1, frame1, d1)"
    by (cases "InitializeFrameResources_slot (cr i) i (frames ! i) d") auto
  have i: "i < length frames" using Cons.prems(4) by simp
  have p1: "fenceValue frame1 = 0 \<and> fresh_from h0 frame1"
    using InitializeFrameResources_slot_props[OF s] Cons.prems(2,3) i by simp
  have all1: "\<forall>frame \<in> set (frames[i := frame1]). fenceValue frame = 0 \<and> fresh_from h0 frame"
    using p1 Cons.prems(2) by (auto dest!: subsetD[OF set_update_subset_insert])
  have h1: "h0 \<le> nextHandle d1"
    using InitializeFrameResources_slot_props(2)[OF s] Cons.prems(3) by simp
  show ?case
  proof (cases ok1)
    case True
    then have "InitializeFrameResources_loop cr is (frames[i := frame1]) d1 = (ok, frames', d')"
      using Cons.prems(1) s by simp
    from Cons.IH[OF this all1 h1] Cons.prems(4) show ?thesis by simp
  next
    case False
    then have "frames' = frames[i := frame1]"
      using Cons.prems(1) s by simp
    then show ?thesis using all1 by simp
  qed
qed

lemma resize_Nil: "resize n [] = replicate n FrameResources_default"
  by (simp add: resize_def)

lemma InitializeFrameResources_slot_allocator:
  "InitializeFrameResources_slot c i frame d = (ok, frame', d') \<Longrightarrow>
     commandAllocator frame' \<noteq> None"
  by (auto simp: InitializeFrameResources_slot_def Let_def split: if_splits)

lemma InitializeFrameResources_loop_ok:
  assumes "InitializeFrameResources_loop cr is frames d = (True, frames', d')"
    and "distinct is"
    and "\<forall>i \<in> set is. i < length frames"
  shows "(\<forall>i \<in> set is. commandAllocator (frames' ! i) \<noteq> None)
         \<and> (\<forall>j. j \<notin> set is \<longrightarrow> frames' ! j = frames ! j)"
  using assms
proof (induction "is" arbitrary: frames d)
  case Nil
  then show ?case by simp
next
  case (Cons i "is")
  obtain ok1 frame1 d1 where
    s: "InitializeFrameResources_slot (cr i) i (frames ! i) d = (ok1, frame1, d1)"
    by (cases "InitializeFrameResources_slot (cr i) i (frames ! i) d") auto
  have ok1: ok1
    using Cons.prems(1) s by (cases ok1) simp_all
  then have l: "InitializeFrameResources_loop cr is (frames[i := frame1]) d1 = (True, frames', d')"
    using Cons.prems(1) s by simp
  have i: "i < length frames" "i \<notin> set is"
    using Cons.prems(2,3) by simp_all
  from Cons.IH[OF l] Cons.prems(2,3) have
    ih: "\<forall>k \<in> set is. commandAllocator (frames' ! k) \<noteq> None"
        "\<forall>j. j \<notin> set is \<longrightarrow> frames' ! j = (frames[i := frame1]) ! j"
    by simp_all
  have "frames' ! i = frame1"
    using ih(2) i by simp
  then have "commandAllocator (frames' ! i) \<noteq> None"
    using InitializeFrameResources_slot_allocator[OF s] by simp
  moreover have "\<forall>j. j \<notin> set (i # is) \<longrightarrow> frames' ! j = frames ! j"
    using ih(2) by simp
  ultimately show ?case using ih(1) by simp
qed

lemma Renderer_ctor_fresh:
  assumes "Renderer_ctor cenv config d0 = Constructed (r0, d1)"
  shows "m_swapChain r0 = Some (swapChainCreated cenv)
         \<and> length (m_frameResources r0) = unat (GetBufferCount (swapChainCreated cenv))
         \<and> (\<forall>frame \<in> set (m_frameResources r0).
               fenceValue frame = 0 \<and> commandAllocator frame \<noteq> None)"
proof -
  define n where "n = unat (GetBufferCount (swapChainCreated cenv))"
  obtain ok frames' d2 where
    l: "InitializeFrameResources_loop (frameCreations cenv) [0..<n]
          (replicate n FrameResources_default) d0 = (ok, frames', d2)"
    by (cases "InitializeFrameResources_loop (frameCreations cenv) [0..<n]
                 (replicate n FrameResources_default) d0") auto
  from assms l have ok: ok and r0: "m_frameResources r0 = frames'"
    and sc: "m_swapChain r0 = Some (swapChainCreated cenv)"
    by (auto simp: Renderer_ctor_def InitializeFrameResources_def resize_Nil Let_def n_def
          split: if_splits)
  have props: "length frames' = n \<and> (\<forall>frame \<in> set frames'. fenceValue frame = 0 \<and> fresh_from 0 frame)"
    using InitializeFrameResources_loop_props[OF l, of 0]
    by (simp add: FrameResources_default_def fresh_from_def)
  from InitializeFrameResources_loop_ok[OF l[unfolded ok[THEN eqTrueI]]]
  have "\<forall>i < n. commandAllocator (frames' ! i) \<noteq> None"
    by simp
  then have "\<forall>frame \<in> set frames'. commandAllocator frame \<noteq> None"
    using props by (auto simp: in_set_conv_nth)
  with props r0 sc show ?thesis by (simp add: n_def)
qed

lemma WaitForFrame_complete:
  assumes "WaitForFrame r i True d = Returns d'"
  shows "IsFrameComplete r d' i = Returns True"
proof -
  have "\<And>f fv c rest. gpu_until f fv (gpuSchedule d) (completedValue d) = (True, c, rest) \<Longrightarrow> fv \<le> c f"
    using gpu_until_cases by blast
  then show ?thesis
    using assms
    by (auto simp: WaitForFrame_def IsFrameComplete_def WaitForSingleObject_INFINITE_def
          emit_def Let_def split: if_splits option.splits prod.splits)
qed

lemma IsFrameComplete_cong:
  "m_frameResources r' = m_frameResources r \<Longrightarrow> completedValue d' = completedValue d \<Longrightarrow>
     IsFrameComplete r' d' i = IsFrameComplete r d i"
  by (simp add: IsFrameComplete_def Let_def split: option.splits)

lemma BeginFrame_complete:
  assumes "setEventOnCompletionOk env"
    and "BeginFrame env (r, d) = Returns (cl, r', d')"
  shows "IsFrameComplete r' d' (GetCurrentBackBufferIndex env) = Returns True"
proof -
  define r1 where "r1 = r\<lparr>m_currentFrameIndex := GetCurrentBackBufferIndex env\<rparr>"
  from assms obtain d2 where
    w: "WaitForFrame r1 (GetCurrentBackBufferIndex env) True (emit ResourceManager_BeginFrame d) = Returns d2"
    and r': "r' = r1"
    and d': "\<exists>cs. d' = d2\<lparr>calls := cs\<rparr>"
    by (auto simp: BeginFrame_def Let_def r1_def emit_def
          split: option.splits if_splits outcome.splits)
  from d' obtain cs where "d' = d2\<lparr>calls := cs\<rparr>" by blast
  then have "IsFrameComplete r' d' (GetCurrentBackBufferIndex env)
               = IsFrameComplete r1 d2 (GetCurrentBackBufferIndex env)"
    using r' by (intro IsFrameComplete_cong) simp_all
  with WaitForFrame_complete[OF w] show ?thesis by simp
qed

lemma BeginFrame_Blocked_iff:
  assumes "m_swapChain r = Some sc"
    and "unat (GetCurrentBackBufferIndex env) < length (m_frameResources r)"
    and "fenceValue (m_frameResources r ! unat (GetCurrentBackBufferIndex env)) \<noteq> 0"
    and "frameFence (m_frameResources r ! unat (GetCurrentBackBufferIndex env)) = Some f"
    and "completedValue d f < fenceValue (m_frameResources r ! unat (GetCurrentBackBufferIndex env))"
    and "setEventOnCompletionOk env"
  shows "(\<exists>d'. BeginFrame env (r, d) = Blocked d') \<longleftrightarrow>
         (\<forall>(g, v) \<in> set (gpuSchedule d).
            \<not> (g = f \<and> fenceValue (m_frameResources r ! unat (GetCurrentBackBufferIndex env)) \<le> v))"
proof -
  define fv where "fv = fenceValue (m_frameResources r ! unat (GetCurrentBackBufferIndex env))"
  obtain reached c rest where g: "gpu_until f fv (gpuSchedule d) (completedValue d) = (reached, c, rest)"
    by (cases "gpu_until f fv (gpuSchedule d) (completedValue d)") auto
  have "(\<exists>d'. BeginFrame env (r, d) = Blocked d') \<longleftrightarrow> \<not> reached"
    using assms g
    by (auto simp: BeginFrame_def WaitForFrame_def WaitForSingleObject_INFINITE_def emit_def
          Let_def fv_def not_le split: option.splits)
  then show ?thesis
    using gpu_until_cases[OF g] by (simp add: fv_def)
qed

subsection \<open>Frames on slots that were never submitted\<close>

lemma run_append:
  "run (xs @ ys) rd =
     (case run xs rd of Returns rd1 \<Rightarrow> run ys rd1 | Blocked d \<Rightarrow> Blocked d | Undefined \<Rightarrow> Undefined)"
  by (induction xs arbitrary: rd) (auto split: outcome.splits)

lemma BeginFrame_sentinel:
  assumes "m_swapChain r = Some sc"
    and "unat (GetCurrentBackBufferIndex env) < length (m_frameResources r)"
    and "fenceValue (m_frameResources r ! unat (GetCurrentBackBufferIndex env)) = 0"
    and "commandAllocator (m_frameResources r ! unat (GetCurrentBackBufferIndex env)) = Some a"
  shows "\<exists>cl d'. BeginFrame env (r, d) =
            Returns (cl, r\<lparr>m_currentFrameIndex := GetCurrentBackBufferIndex env\<rparr>, d')
          \<and> completedValue d' = completedValue d \<and> gpuSchedule d' = gpuSchedule d"
  using assms by (simp add: BeginFrame_def WaitForFrame_def emit_def Let_def)

lemma EndFrame_Returns:
  assumes "m_swapChain r = Some sc"
    and "unat (m_currentFrameIndex r) < length (m_frameResources r)"
  shows "\<exists>d'. EndFrame env config (r, d) =
            Returns (if closeOk env
                     then r\<lparr>m_nextFenceValue := m_nextFenceValue r + 1,
                            m_frameResources := (m_frameResources r)
                              [unat (m_currentFrameIndex r) :=
                                 (m_frameResources r ! unat (m_currentFrameIndex r))
                                   \<lparr>fenceValue := m_nextFenceValue r\<rparr>]\<rparr>
                     else r, d')
          \<and> completedValue d' = completedValue d \<and> gpuSchedule d' = gpuSchedule d"
  using assms by (simp add: EndFrame_def emit_def Let_def)

lemma frame_Returns:
  assumes sc: "m_swapChain r = Some sc"
    and i: "unat (GetCurrentBackBufferIndex b) < length (m_frameResources r)"
    and z: "fenceValue (m_frameResources r ! unat (GetCurrentBackBufferIndex b)) = 0"
    and a: "commandAllocator (m_frameResources r ! unat (GetCurrentBackBufferIndex b)) \<noteq> None"
  shows "\<exists>r' d'. run (Op_BeginFrame b # Op_EndFrame e config # ops) (r, d) = run ops (r', d')
          \<and> m_swapChain r' = m_swapChain r
          \<and> m_frameResources r' =
              (if closeOk e
               then (m_frameResources r)
                      [unat (GetCurrentBackBufferIndex b) :=
                         (m_frameResources r ! unat (GetCurrentBackBufferIndex b))
                           \<lparr>fenceValue := m_nextFenceValue r\<rparr>]
               else m_frameResources r)
          \<and> completedValue d' = completedValue d \<and> gpuSchedule d' = gpuSchedule d"
proof -
  from a obtain al where
    "commandAllocator (m_frameResources r ! unat (GetCurrentBackBufferIndex b)) = Some al"
    by auto
  from BeginFrame_sentinel[OF sc i z this, of d] obtain cl d1 where
    b: "BeginFrame b (r, d) = Returns (cl, r\<lparr>m_currentFrameIndex := GetCurrentBackBufferIndex b\<rparr>, d1)"
    and d1: "completedValue d1 = completedValue d" "gpuSchedule d1 = gpuSchedule d"
    by blast
  define r1 where "r1 = r\<lparr>m_currentFrameIndex := GetCurrentBackBufferIndex b\<rparr>"
  have sc1: "m_swapChain r1 = Some sc" and i1: "unat (m_currentFrameIndex r1) < length (m_frameResources r1)"
    using sc i by (simp_all add: r1_def)
  from EndFrame_Returns[OF sc1 i1, of e config d1] obtain d2 where
    e: "EndFrame e config (r1, d1) =
            Returns (if closeOk e
                     then r1\<lparr>m_nextFenceValue := m_nextFenceValue r1 + 1,
                            m_frameResources := (m_frameResources r1)
                              [unat (m_currentFrameIndex r1) :=
                                 (m_frameResources r1 ! unat (m_currentFrameIndex r1))
                                   \<lparr>fenceValue := m_nextFenceValue r1\<rparr>]\<rparr>
                     else r1, d2)"
    and d2: "completedValue d2 = completedValue d1" "gpuSchedule d2 = gpuSchedule d1"
    by blast
  define r2 where "r2 = (if closeOk e
                     then r1\<lparr>m_nextFenceValue := m_nextFenceValue r1 + 1,
                            m_frameResources := (m_frameResources r1)
                              [unat (m_currentFrameIndex r1) :=
                                 (m_frameResources r1 ! unat (m_currentFrameIndex r1))
                                   \<lparr>fenceValue := m_nextFenceValue r1\<rparr>]\<rparr>
                     else r1)"
  have "run (Op_BeginFrame b # Op_EndFrame e config # ops) (r, d) = run ops (r2, d2)"
    using b e by (simp add: r1_def r2_def)
  moreover have "m_swapChain r2 = m_swapChain r"
    by (simp add: r1_def r2_def)
  moreover have "m_frameResources r2 =
              (if closeOk e
               then (m_frameResources r)
                      [unat (GetCurrentBackBufferIndex b) :=
                         (m_frameResources r ! unat (GetCurrentBackBufferIndex b))
                           \<lparr>fenceValue := m_nextFenceValue r\<rparr>]
               else m_frameResources r)"
    by (simp add: r1_def r2_def)
  ultimately show ?thesis
    using d1 d2 by (intro exI[of _ r2] exI[of _ d2]) simp
qed

lemma run_frames:
  assumes "m_swapChain r = Some sc"
    and "\<forall>frame \<in> set (m_frameResources r). commandAllocator frame \<noteq> None"
    and "distinct (map frame_index fs)"
    and "\<forall>f \<in> set fs. unat (frame_index f) < length (m_frameResources r)
                       \<and> fenceValue (m_frameResources r ! unat (frame_index f)) = 0"
  shows "\<exists>r' d'. run (frame_ops fs) (r, d) = Returns (r', d')
          \<and> m_swapChain r' = m_swapChain r
          \<and> length (m_frameResources r') = length (m_frameResources r)
          \<and> map frameFence (m_frameResources r') = map frameFence (m_frameResources r)
          \<and> (\<forall>j. j \<notin> unat ` frame_index ` set fs \<longrightarrow> m_frameResources r' ! j = m_frameResources r ! j)
          \<and> completedValue d' = completedValue d \<and> gpuSchedule d' = gpuSchedule d"
  using assms
proof (induction fs arbitrary: r d)
  case Nil
  then show ?case by simp
next
  case (Cons f fs)
  obtain b e config where f: "f = (b, e, config)" by (cases f) auto
  define i where "i = unat (GetCurrentBackBufferIndex b)"
  have i: "i < length (m_frameResources r)" and z: "fenceValue (m_frameResources r ! i) = 0"
    using Cons.prems(4) by (simp_all add: f i_def frame_index_def)
  have a: "commandAllocator (m_frameResources r ! i) \<noteq> None"
    using Cons.prems(2) i by simp
  from frame_Returns[OF Cons.prems(1) i[unfolded i_def] z[unfolded i_def] a[unfolded i_def],
      of e config "frame_ops fs" d]
  obtain r1 d1 where
    step: "run (frame_ops (f # fs)) (r, d) = run (frame_ops fs) (r1, d1)"
    and sc1: "m_swapChain r1 = m_swapChain r"
    and pool1: "m_frameResources r1 =
              (if closeOk e
               then (m_frameResources r)[i := (m_frameResources r ! i)\<lparr>fenceValue := m_nextFenceValue r\<rparr>]
               else m_frameResources r)"
    and d1: "completedValue d1 = completedValue d" "gpuSchedule d1 = gpuSchedule d"
    by (auto simp: f i_def)
  have len1: "length (m_frameResources r1) = length (m_frameResources r)"
    using pool1 by simp
  have other: "\<And>j. j \<noteq> i \<Longrightarrow> m_frameResources r1 ! j = m_frameResources r ! j"
    using pool1 by simp
  have ff1: "map frameFence (m_frameResources r1) = map frameFence (m_frameResources r)"
    using pool1 i by (simp add: map_update list_update_same_conv)
  have al1: "\<forall>frame \<in> set (m_frameResources r1). commandAllocator frame \<noteq> None"
  proof -
    have "map commandAllocator (m_frameResources r1) = map commandAllocator (m_frameResources r)"
      using pool1 i by (simp add: map_update list_update_same_conv)
    then have "set (map commandAllocator (m_frameResources r1)) = set (map commandAllocator (m_frameResources r))"
      by simp
    then show ?thesis using Cons.prems(2) by (simp only: set_map) (metis imageE imageI)
  qed
  have "frame_index f \<notin> set (map frame_index fs)"
    using Cons.prems(3) by simp
  then have nin: "frame_index f \<notin> frame_index ` set fs"
    by simp
  have "\<forall>g \<in> set fs. frame_index g \<noteq> frame_index f"
  proof (intro ballI notI)
    fix g
    assume "g \<in> set fs" and "frame_index g = frame_index f"
    then have "frame_index f \<in> frame_index ` set fs"
      by (intro rev_image_eqI[of g]) simp_all
    with nin show False by simp
  qed
  then have ne: "\<forall>g \<in> set fs. unat (frame_index g) \<noteq> i"
    by (simp add: f i_def frame_index_def word_unat_eq_iff)
  have rest: "\<forall>g \<in> set fs. unat (frame_index g) < length (m_frameResources r1)
                       \<and> fenceValue (m_frameResources r1 ! unat (frame_index g)) = 0"
    using Cons.prems(4) ne other len1 by simp
  have dist: "distinct (map frame_index fs)" using Cons.prems(3) by simp
  from Cons.IH[OF _ al1 dist rest, of d1] sc1 Cons.prems(1)
  obtain r' d' where
    fin: "run (frame_ops fs) (r1, d1) = Returns (r', d')"
      "m_swapChain r' = m_swapChain r1"
      "length (m_frameResources r') = length (m_frameResources r1)"
      "map frameFence (m_frameResources r') = map frameFence (m_frameResources r1)"
      "\<forall>j. j \<notin> unat ` frame_index ` set fs \<longrightarrow> m_frameResources r' ! j = m_frameResources r1 ! j"
      "completedValue d' = completedValue d1" "gpuSchedule d' = gpuSchedule d1"
    by auto
  have "\<forall>j. j \<notin> unat ` frame_index ` set (f # fs) \<longrightarrow> m_frameResources r' ! j = m_frameResources r ! j"
    using fin(5) other by (auto simp: f i_def frame_index_def)
  then show ?case
    using step fin sc1 len1 ff1 d1 by auto
qed

lemma run_frames_first:
  assumes sc: "m_swapChain r = Some sc"
    and al: "\<forall>frame \<in> set (m_frameResources r). commandAllocator frame \<noteq> None"
    and di: "distinct (map frame_index (f0 # fs))"
    and rg: "\<forall>f \<in> set (f0 # fs). unat (frame_index f) < length (m_frameResources r)
                       \<and> fenceValue (m_frameResources r ! unat (frame_index f)) = 0"
    and cl: "closeOk (fst (snd f0))"
  shows "\<exists>r' d'. run (frame_ops (f0 # fs)) (r, d) = Returns (r', d')
          \<and> m_swapChain r' = m_swapChain r
          \<and> length (m_frameResources r') = length (m_frameResources r)
          \<and> m_frameResources r' ! unat (frame_index f0)
              = (m_frameResources r ! unat (frame_index f0))\<lparr>fenceValue := m_nextFenceValue r\<rparr>
          \<and> completedValue d' = completedValue d \<and> gpuSchedule d' = gpuSchedule d"
proof -
  obtain b e config where f0: "f0 = (b, e, config)" by (cases f0) auto
  define i where "i = unat (GetCurrentBackBufferIndex b)"
  have i: "i < length (m_frameResources r)" and z: "fenceValue (m_frameResources r ! i) = 0"
    using rg by (simp_all add: f0 i_def frame_index_def)
  have a: "commandAllocator (m_frameResources r ! i) \<noteq> None"
    using al i by simp
  from frame_Returns[OF sc i[unfolded i_def] z[unfolded i_def] a[unfolded i_def],
      of e config "frame_ops fs" d] cl
  obtain r1 d1 where
    step: "run (frame_ops (f0 # fs)) (r, d) = run (frame_ops fs) (r1, d1)"
    and sc1: "m_swapChain r1 = m_swapChain r"
    and pool1: "m_frameResources r1 =
               (m_frameResources r)[i := (m_frameResources r ! i)\<lparr>fenceValue := m_nextFenceValue r\<rparr>]"
    and d1: "completedValue d1 = completedValue d" "gpuSchedule d1 = gpuSchedule d"
    by (auto simp: f0 i_def)
  have len1: "length (m_frameResources r1) = length (m_frameResources r)"
    using pool1 by simp
  have other: "\<And>j. j \<noteq> i \<Longrightarrow> m_frameResources r1 ! j = m_frameResources r ! j"
    using pool1 by simp
  have al1: "\<forall>frame \<in> set (m_frameResources r1). commandAllocator frame \<noteq> None"
  proof -
    have "map commandAllocator (m_frameResources r1) = map commandAllocator (m_frameResources r)"
      using pool1 i by (simp add: map_update list_update_same_conv)
    then have "set (map commandAllocator (m_frameResources r1))
                 = set (map commandAllocator (m_frameResources r))"
      by simp
    then show ?thesis using al by (simp only: set_map) (metis imageE imageI)
  qed
  have nin: "frame_index f0 \<notin> frame_index ` set fs"
    using di by simp
  have neq: "\<forall>g \<in> set fs. frame_index g \<noteq> frame_index f0"
  proof (intro ballI notI)
    fix g
    assume "g \<in> set fs" and "frame_index g = frame_index f0"
    then have "frame_index f0 \<in> frame_index ` set fs"
      by (intro rev_image_eqI[of g]) simp_all
    with nin show False by simp
  qed
  then have ne: "\<forall>g \<in> set fs. unat (frame_index g) \<noteq> i"
    by (simp add: f0 i_def frame_index_def word_unat_eq_iff)
  have rest: "\<forall>g \<in> set fs. unat (frame_index g) < length (m_frameResources r1)
                       \<and> fenceValue (m_frameResources r1 ! unat (frame_index g)) = 0"
    using rg ne other len1 by simp
  have dist: "distinct (map frame_index fs)" using di by simp
  from run_frames[OF _ al1 dist rest, of _ d1] sc1 sc
  obtain r' d' where
    fin: "run (frame_ops fs) (r1, d1) = Returns (r', d')"
      "m_swapChain r' = m_swapChain r1"
      "length (m_frameResources r') = length (m_frameResources r1)"
      "\<forall>j. j \<notin> unat ` frame_index ` set fs \<longrightarrow> m_frameResources r' ! j = m_frameResources r1 ! j"
      "completedValue d' = completedValue d1" "gpuSchedule d' = gpuSchedule d1"
    by auto
  have "i \<notin> unat ` frame_index ` set fs"
    using ne by auto
  then have "m_frameResources r' ! i = m_frameResources r1 ! i"
    using fin(4) by simp
  then have "m_frameResources r' ! i = (m_frameResources r ! i)\<lparr>fenceValue := m_nextFenceValue r\<rparr>"
    using pool1 i by simp
  then show ?thesis
    using step fin sc1 len1 d1 by (simp add: f0 i_def frame_index_def)
qed

subsection \<open>The fence value counter along a run\<close>

lemma BeginFrame_counter:
  assumes "BeginFrame env (r, d) = Returns (cl, r', d')"
  shows "m_nextFenceValue r' = m_nextFenceValue r
         \<and> drawn_values (calls d') = drawn_values (calls d)"
proof -
  define r1 where "r1 = r\<lparr>m_currentFrameIndex := GetCurrentBackBufferIndex env\<rparr>"
  from assms obtain d2 where
    w: "WaitForFrame r1 (GetCurrentBackBufferIndex env) (setEventOnCompletionOk env)
          (emit ResourceManager_BeginFrame d) = Returns d2"
    and r': "r' = r1"
    and d': "drawn_values (calls d') = drawn_values (calls d2)"
    by (auto simp: BeginFrame_def Let_def r1_def emit_def
          split: option.splits if_splits outcome.splits)
  from WaitForFrame_Returns[OF w] r' d' show ?thesis
    by (simp add: r1_def emit_def)
qed

lemma EndFrame_counter:
  assumes "EndFrame env config (r, d) = Returns (r', d')"
  shows "m_nextFenceValue r' = m_nextFenceValue r + (if closeOk env then 1 else 0)
         \<and> drawn_values (calls d') =
             drawn_values (calls d) @ (if closeOk env then [m_nextFenceValue r] else [])"
  using assms
  by (auto simp: EndFrame_def Let_def emit_def split: option.splits if_splits)

lemma OnReconfigure_counter:
  assumes "OnReconfigure env width height bufferCount (r, d) = Returns (r', d')"
  shows "m_nextFenceValue r' = m_nextFenceValue r
         \<and> drawn_values (calls d') = drawn_values (calls d)"
proof (cases "m_swapChain r")
  case None
  with assms show ?thesis by (simp add: OnReconfigure_def)
next
  case (Some sc)
  with assms obtain d1 where w: "WaitForAllFrames r (waitSetEventOk env) d = Returns d1"
    by (auto simp: OnReconfigure_def split: outcome.splits)
  have dv1: "drawn_values (calls d1) = drawn_values (calls d)"
    using WaitForAllFrames_Returns[OF w] by simp
  define d2 where "d2 = emit (SwapChain_Reconfigure width height bufferCount) d1"
  have dv2: "drawn_values (calls d2) = drawn_values (calls d)"
    using dv1 by (simp add: d2_def emit_def)
  define n where "n = unat (GetBufferCount (reconfigured env))"
  obtain ok frames' d3 where
    l: "InitializeFrameResources_loop (creations env) [0..<n]
          (replicate n FrameResources_default) d2 = (ok, frames', d3)"
    by (cases "InitializeFrameResources_loop (creations env) [0..<n]
                 (replicate n FrameResources_default) d2") auto
  have dv3: "drawn_values (calls d3) = drawn_values (calls d)"
    using InitializeFrameResources_loop_drawn[OF l] dv2 by simp
  show ?thesis
    using assms Some w l dv2 dv3
    by (auto simp: OnReconfigure_def InitializeFrameResources_def ReleaseFrameResources_def
          resize_Nil Let_def d2_def n_def emit_def split: if_splits)
qed

lemma step_counter:
  assumes "step x (r, d) = Returns (r', d')"
  shows "\<exists>b. m_nextFenceValue r' = m_nextFenceValue r + (if b then 1 else 0)
             \<and> drawn_values (calls d') =
                 drawn_values (calls d) @ (if b then [m_nextFenceValue r] else [])"
proof (cases x)
  case (Op_BeginFrame env)
  with assms obtain cl where "BeginFrame env (r, d) = Returns (cl, r', d')"
    by (auto split: outcome.splits)
  from BeginFrame_counter[OF this] show ?thesis
    by (intro exI[of _ False]) simp
next
  case (Op_EndFrame env config)
  with assms have "EndFrame env config (r, d) = Returns (r', d')" by simp
  from EndFrame_counter[OF this] show ?thesis
    by (intro exI[of _ "closeOk env"]) simp
next
  case (Op_OnReconfigure env w h bc)
  with assms have "OnReconfigure env w h bc (r, d) = Returns (r', d')" by simp
  from OnReconfigure_counter[OF this] show ?thesis
    by (intro exI[of _ False]) simp
next
  case (Op_GPU f v)
  with assms show ?thesis
    by (intro exI[of _ False]) (auto simp: gpu_complete_def)
qed

lemma run_counter:
  assumes "run ops (r, d) = Returns (r', d')"
  shows "\<exists>k. m_nextFenceValue r' = m_nextFenceValue r + word_of_nat k
             \<and> drawn_values (calls d') =
                 drawn_values (calls d) @ map (\<lambda>j. m_nextFenceValue r + word_of_nat j) [0..<k]"
  using assms
proof (induction ops arbitrary: r d)
  case Nil
  then show ?case by (intro exI[of _ 0]) simp
next
  case (Cons x xs)
  then obtain r1 d1 where s: "step x (r, d) = Returns (r1, d1)"
    and rest: "run xs (r1, d1) = Returns (r', d')"
    by (auto split: outcome.splits)
  from step_counter[OF s] obtain b where
    b: "m_nextFenceValue r1 = m_nextFenceValue r + (if b then 1 else 0)"
       "drawn_values (calls d1) = drawn_values (calls d) @ (if b then [m_nextFenceValue r] else [])"
    by blast
  from Cons.IH[OF rest] obtain k where
    k: "m_nextFenceValue r' = m_nextFenceValue r1 + word_of_nat k"
       "drawn_values (calls d') =
          drawn_values (calls d1) @ map (\<lambda>j. m_nextFenceValue r1 + word_of_nat j) [0..<k]"
    by blast
  show ?case
  proof (cases b)
    case True
    have "map (\<lambda>j. m_nextFenceValue r + word_of_nat j) [0..<Suc k]
            = m_nextFenceValue r # map (\<lambda>j. m_nextFenceValue r + 1 + word_of_nat j) [0..<k]"
      by (simp add: map_upt_Suc del: upt_Suc)
    with True b k show ?thesis
      by (intro exI[of _ "Suc k"]) (simp add: add.assoc del: upt_Suc)
  next
    case False
    with b k show ?thesis
      by (intro exI[of _ k]) simp
  qed
qed

lemma drawn_strictly_increasing:
  assumes "k < 2 ^ 64"
  shows "sorted_wrt (<) (map (\<lambda>j. (1 :: UINT64) + word_of_nat j) [0..<k])
         \<and> 0 \<notin> set (map (\<lambda>j. (1 :: UINT64) + word_of_nat j) [0..<k])"
proof -
  have eq: "\<And>j. (1 :: UINT64) + word_of_nat j = word_of_nat (Suc j)" by simp
  have tb: "\<And>j. j < k \<Longrightarrow> take_bit LENGTH(64) (Suc j) = Suc j"
    using assms by (intro take_bit_nat_eq_self) simp
  have "\<And>i j. i < j \<Longrightarrow> j < k \<Longrightarrow> (word_of_nat (Suc i) :: UINT64) < word_of_nat (Suc j)"
    by (simp only: word_of_nat_less_iff tb)
  then have lt: "\<And>i j. i < j \<Longrightarrow> j < k \<Longrightarrow> (1 :: UINT64) + word_of_nat i < 1 + word_of_nat j"
    by (simp only: eq)
  have "sorted_wrt (\<lambda>i j. (1 :: UINT64) + word_of_nat i < 1 + word_of_nat j) [0..<k]"
    by (rule sorted_wrt_mono_rel[OF _ sorted_wrt_upt]) (simp add: lt)
  then have s: "sorted_wrt (<) (map (\<lambda>j. (1 :: UINT64) + word_of_nat j) [0..<k])"
    by (simp only: sorted_wrt_map)
  have "\<And>j. j < k \<Longrightarrow> (word_of_nat (Suc j) :: UINT64) \<noteq> 0"
    using assms by (intro of_nat_neq_0) simp_all
  then have nz: "\<And>j. j < k \<Longrightarrow> (1 :: UINT64) + word_of_nat j \<noteq> 0"
    by (simp only: eq not_False_eq_True)
  have "0 \<notin> set (map (\<lambda>j. (1 :: UINT64) + word_of_nat j) [0..<k])"
  proof
    assume "0 \<in> set (map (\<lambda>j. (1 :: UINT64) + word_of_nat j) [0..<k])"
    then obtain j where "j < k" and "(1 :: UINT64) + word_of_nat j = 0"
      by (auto simp del: of_nat_Suc)
    with nz show False by blast
  qed
  with s show ?thesis by simp
qed

lemma InitializeFrameResources_counter:
  assumes "InitializeFrameResources cr (r, d) = Returns (ok, r', d')"
  shows "m_nextFenceValue r' = m_nextFenceValue r
         \<and> drawn_values (calls d') = drawn_values (calls d)"
proof -
  from assms obtain sc where sc: "m_swapChain r = Some sc"
    by (auto simp: InitializeFrameResources_def split: option.splits)
  define n where "n = unat (GetBufferCount sc)"
  obtain ok1 frames' d3 where
    l: "InitializeFrameResources_loop cr [0..<n] (resize n (m_frameResources r)) d = (ok1, frames', d3)"
    by (cases "InitializeFrameResources_loop cr [0..<n] (resize n (m_frameResources r)) d") auto
  from assms sc l InitializeFrameResources_loop_drawn[OF l] show ?thesis
    by (auto simp: InitializeFrameResources_def Let_def n_def)
qed

lemma Renderer_ctor_counter:
  assumes "Renderer_ctor cenv config d0 = Constructed (r0, d1)"
  shows "m_nextFenceValue r0 = 1 \<and> drawn_values (calls d1) = drawn_values (calls d0)"
proof -
  define r where "r = \<lparr>m_swapChain = Some (swapChainCreated cenv), m_commandList = 0,
                  m_frameResources = [], m_currentFrameIndex = m_currentFrameIndex_initial cenv,
                  m_nextFenceValue = m_nextFenceValue_initial\<rparr>"
  from assms obtain ok r1 d2 where
    i: "InitializeFrameResources (frameCreations cenv) (r, d0) = Returns (ok, r1, d2)"
    and r0: "m_nextFenceValue r0 = m_nextFenceValue r1"
    and d1: "calls d1 = calls d2"
    by (auto simp: Renderer_ctor_def Let_def r_def split: if_splits outcome.splits)
  from InitializeFrameResources_counter[OF i] r0 d1 show ?thesis
    by (simp add: r_def m_nextFenceValue_initial_def)
qed

lemma run_frames_completed:
  assumes "m_swapChain r = Some sc"
    and "m_frameResources r = [slot0, slot1]"
    and "commandAllocator slot0 = Some a" and "frameFence slot0 = Some 2"
    and "fenceValue slot0 = 0 \<or> fenceValue slot0 \<le> completedValue d 2"
    and "m_nextFenceValue r = 1 + word_of_nat k"
  shows "\<exists>r' d'. run (concat (map frame_then_complete [k..<k + n])) (r, d) = Returns (r', d')
           \<and> drawn_values (calls d') =
               drawn_values (calls d) @ map (\<lambda>j. 1 + word_of_nat j) [k..<k + n]"
  using assms
proof (induction n arbitrary: k r d slot0)
  case 0
  then show ?case by simp
next
  case (Suc n)
  define r1 where "r1 = r\<lparr>m_currentFrameIndex := 0, m_nextFenceValue := m_nextFenceValue r + 1,
     m_frameResources := [slot0\<lparr>fenceValue := m_nextFenceValue r\<rparr>, slot1]\<rparr>"
  have "\<exists>d1. run (frame_then_complete k) (r, d) = Returns (r1, d1)
          \<and> drawn_values (calls d1) = drawn_values (calls d) @ [1 + word_of_nat k]
          \<and> completedValue d1 2 = 1 + word_of_nat k"
    using Suc.prems
    by (auto simp: frame_then_complete_def ex_defs BeginFrame_def WaitForFrame_def EndFrame_def
          gpu_complete_def emit_def Let_def r1_def)
  then obtain d1 where
    f: "run (frame_then_complete k) (r, d) = Returns (r1, d1)"
    and dv: "drawn_values (calls d1) = drawn_values (calls d) @ [1 + word_of_nat k]"
    and cv: "completedValue d1 2 = 1 + word_of_nat k"
    by blast
  have p: "m_swapChain r1 = Some sc"
      "m_frameResources r1 = [slot0\<lparr>fenceValue := m_nextFenceValue r\<rparr>, slot1]"
      "commandAllocator (slot0\<lparr>fenceValue := m_nextFenceValue r\<rparr>) = Some a"
      "frameFence (slot0\<lparr>fenceValue := m_nextFenceValue r\<rparr>) = Some 2"
      "fenceValue (slot0\<lparr>fenceValue := m_nextFenceValue r\<rparr>) = 0
         \<or> fenceValue (slot0\<lparr>fenceValue := m_nextFenceValue r\<rparr>) \<le> completedValue d1 2"
      "m_nextFenceValue r1 = 1 + word_of_nat (Suc k)"
    using Suc.prems cv by (simp_all add: r1_def)
  from Suc.IH[OF p] obtain r' d' where
    rest: "run (concat (map frame_then_complete [Suc k..<Suc k + n])) (r1, d1) = Returns (r', d')"
      "drawn_values (calls d') =
         drawn_values (calls d1) @ map (\<lambda>j. 1 + word_of_nat j) [Suc k..<Suc k + n]"
    by blast
  have u: "[k..<k + Suc n] = k # [Suc k..<Suc k + n]"
    by (simp add: upt_conv_Cons)
  show ?case
    using f rest dv by (simp only: u) (simp add: run_append)
qed

subsection \<open>When the waits end\<close>







subsection \<open>The calls of \<open>BeginFrame\<close>, in order\<close>

lemma BeginFrame_outcome:
  assumes "m_swapChain r = Some sc"
    and "unat (GetCurrentBackBufferIndex env) < length (m_frameResources r)"
    and "m_frameResources r ! unat (GetCurrentBackBufferIndex env) = slot"
    and "frameFence slot = Some f"
    and "commandAllocator slot = Some a"
  shows "case BeginFrame env (r, d) of
           Returns (cl, r', d') \<Rightarrow>
             r' = r\<lparr>m_currentFrameIndex := GetCurrentBackBufferIndex env\<rparr>
             \<and> (if fenceValue slot = 0 \<or> fenceValue slot \<le> completedValue d f
                then take 2 (new_calls d d') =
                       [ResourceManager_BeginFrame, CommandAllocator_Reset a]
                     \<and> completedValue d' = completedValue d
                     \<and> (\<forall>e. WaitForSingleObject e \<notin> set (new_calls d d'))
                else if setEventOnCompletionOk env
                then take 4 (new_calls d d') =
                       [ResourceManager_BeginFrame,
                        SetEventOnCompletion f (fenceValue slot) (fenceEvent slot),
                        WaitForSingleObject (fenceEvent slot), CommandAllocator_Reset a]
                     \<and> fenceValue slot \<le> completedValue d' f
                     \<and> (\<exists>(g, v) \<in> set (gpuSchedule d). g = f \<and> fenceValue slot \<le> v)
                else take 4 (new_calls d d') =
                       [ResourceManager_BeginFrame,
                        SetEventOnCompletion f (fenceValue slot) (fenceEvent slot),
                        Printf (SetEventOnCompletion_failed (GetCurrentBackBufferIndex env)),
                        CommandAllocator_Reset a]
                     \<and> completedValue d' = completedValue d
                     \<and> (\<forall>e. WaitForSingleObject e \<notin> set (new_calls d d')))
         | Blocked d' \<Rightarrow>
             setEventOnCompletionOk env
             \<and> fenceValue slot \<noteq> 0 \<and> completedValue d f < fenceValue slot
             \<and> new_calls d d' =
                 [ResourceManager_BeginFrame,
                  SetEventOnCompletion f (fenceValue slot) (fenceEvent slot),
                  WaitForSingleObject (fenceEvent slot)]
             \<and> (\<forall>(g, v) \<in> set (gpuSchedule d). \<not> (g = f \<and> fenceValue slot \<le> v))
         | Undefined \<Rightarrow> False"
proof (cases "fenceValue slot = 0 \<or> fenceValue slot \<le> completedValue d f")
  case True
  with assms show ?thesis
    by (auto simp: BeginFrame_def WaitForFrame_def emit_def Let_def new_calls_def)
next
  case waiting: False
  show ?thesis
  proof (cases "setEventOnCompletionOk env")
    case ok: True
    obtain reached c rest where
      g: "gpu_until f (fenceValue slot) (gpuSchedule d) (completedValue d) = (reached, c, rest)"
      by (cases "gpu_until f (fenceValue slot) (gpuSchedule d) (completedValue d)") auto
    from gpu_until_cases[OF g] have
      c: "reached \<Longrightarrow> fenceValue slot \<le> c f"
      and n: "\<not> reached \<longleftrightarrow> (\<forall>(g, v) \<in> set (gpuSchedule d). \<not> (g = f \<and> fenceValue slot \<le> v))"
      by simp_all
    show ?thesis
    proof (cases reached)
      case True
      with n have "\<exists>(g, v) \<in> set (gpuSchedule d). g = f \<and> fenceValue slot \<le> v" by auto
      with True c assms g waiting ok show ?thesis
        by (simp add: BeginFrame_def WaitForFrame_def WaitForSingleObject_INFINITE_def emit_def
              Let_def new_calls_def)
    next
      case False
      with n have "\<forall>(g, v) \<in> set (gpuSchedule d). \<not> (g = f \<and> fenceValue slot \<le> v)" by simp
      with False assms g waiting ok show ?thesis
        by (simp add: BeginFrame_def WaitForFrame_def WaitForSingleObject_INFINITE_def emit_def
              Let_def new_calls_def not_le)
    qed
  next
    case False
    with assms waiting show ?thesis
      by (simp add: BeginFrame_def WaitForFrame_def emit_def Let_def new_calls_def)
  qed
qed

subsection \<open>Waiting for the slot that is reused\<close>

text \<open>
  C1, as the code has it. With two slots, after frame 1 has recorded and signalled fence
  value 1 in slot 0 and frame 2 fence value 2 in slot 1, the \<open>BeginFrame\<close> that reuses slot 0
  compares the fence of slot 0 with that slot's own value 1, not with the latest value 2.
  When the fence of slot 0 has reached 1 it resets the allocator of slot 0 at once, with
  no wait. Otherwise it registers a wait for the value 1 on the fence and the event of
  slot 0. When the registration succeeds it waits: it returns exactly when the GPU brings
  that fence to 1 or beyond, the allocator of slot 0 is reset only after the wait, and
  while it is blocked no reset has been made. When the registration fails it prints the
  failure and resets the allocator of slot 0 without waiting, the fence being as it was.
\<close>

theorem BeginFrame_waits_for_own_slot_value:
  assumes "m_swapChain r = Some sc"
    and "m_frameResources r = [slot0, slot1]"
    and "fenceValue slot0 = 1" and "fenceValue slot1 = 2"
    and "frameFence slot0 = Some f0" and "commandAllocator slot0 = Some a0"
    and "GetCurrentBackBufferIndex env = 0"
  shows "case BeginFrame env (r, d) of
           Returns (cl, r', d') \<Rightarrow>
             (if 1 \<le> completedValue d f0
              then take 2 (new_calls d d') =
                     [ResourceManager_BeginFrame, CommandAllocator_Reset a0]
                   \<and> completedValue d' = completedValue d
                   \<and> (\<forall>e. WaitForSingleObject e \<notin> set (new_calls d d'))
              else if setEventOnCompletionOk env
              then take 4 (new_calls d d') =
                     [ResourceManager_BeginFrame,
                      SetEventOnCompletion f0 1 (fenceEvent slot0),
                      WaitForSingleObject (fenceEvent slot0), CommandAllocator_Reset a0]
                   \<and> 1 \<le> completedValue d' f0
                   \<and> (\<exists>(g, v) \<in> set (gpuSchedule d). g = f0 \<and> 1 \<le> v)
              else take 4 (new_calls d d') =
                     [ResourceManager_BeginFrame,
                      SetEventOnCompletion f0 1 (fenceEvent slot0),
                      Printf (SetEventOnCompletion_failed 0), CommandAllocator_Reset a0]
                   \<and> completedValue d' = completedValue d
                   \<and> (\<forall>e. WaitForSingleObject e \<notin> set (new_calls d d')))
         | Blocked d' \<Rightarrow>
             setEventOnCompletionOk env
             \<and> completedValue d f0 < 1
             \<and> new_calls d d' =
                 [ResourceManager_BeginFrame, SetEventOnCompletion f0 1 (fenceEvent slot0),
                  WaitForSingleObject (fenceEvent slot0)]
             \<and> (\<forall>(g, v) \<in> set (gpuSchedule d). \<not> (g = f0 \<and> 1 \<le> v))
         | Undefined \<Rightarrow> False"
proof -
  have i: "unat (GetCurrentBackBufferIndex env) < length (m_frameResources r)"
    and s: "m_frameResources r ! unat (GetCurrentBackBufferIndex env) = slot0"
    using assms by simp_all
  from BeginFrame_outcome[OF assms(1) i s assms(5,6), of d] assms(3,7)
  show ?thesis
    by (auto split: outcome.splits if_splits)
qed

theorem BeginFrame_waits_for_own_slot_value_witness:
  "m_swapChain ex_renderer_busy = Some \<lparr>GetBufferCount = 2\<rparr>
   \<and> map fenceValue (m_frameResources ex_renderer_busy) = [1, 2]
   \<and> map frameFence (m_frameResources ex_renderer_busy) = [Some 2, Some 5]
   \<and> run [Op_BeginFrame (ex_begin 0), Op_EndFrame ex_end ex_config,
        Op_BeginFrame (ex_begin 1), Op_EndFrame ex_end ex_config] (ex_renderer, ex_device)
     = Returns (ex_renderer_busy, ex_device_busy)
   \<and> BeginFrame (ex_begin 0) (ex_renderer_busy, ex_device_busy)
     = Blocked (ex_device_busy\<lparr>calls := calls ex_device_busy @
         [ResourceManager_BeginFrame, SetEventOnCompletion 2 1 3, WaitForSingleObject 3]\<rparr>)
   \<and> BeginFrame (ex_begin 0) (ex_renderer_busy, ex_device_busy\<lparr>gpuSchedule := [(2, 1)]\<rparr>)
     = Returns (Some 7, ex_renderer_busy\<lparr>m_currentFrameIndex := 0\<rparr>,
         ex_device_busy\<lparr>completedValue := (\<lambda>_. 0)(2 := 1), calls := calls ex_device_busy @
           [ResourceManager_BeginFrame, SetEventOnCompletion 2 1 3, WaitForSingleObject 3,
            CommandAllocator_Reset 1, CommandList_Reset 7 1,
            TransitionBarrier D3D12_RESOURCE_STATE_PRESENT D3D12_RESOURCE_STATE_RENDER_TARGET]\<rparr>)
   \<and> BeginFrame (ex_begin 0) (ex_renderer_busy, gpu_complete 2 1 ex_device_busy)
     = Returns (Some 7, ex_renderer_busy\<lparr>m_currentFrameIndex := 0\<rparr>,
         ex_device_busy\<lparr>completedValue := (\<lambda>_. 0)(2 := 1), calls := calls ex_device_busy @
           [ResourceManager_BeginFrame, CommandAllocator_Reset 1, CommandList_Reset 7 1,
            TransitionBarrier D3D12_RESOURCE_STATE_PRESENT D3D12_RESOURCE_STATE_RENDER_TARGET]\<rparr>)
   \<and> BeginFrame ((ex_begin 0)\<lparr>setEventOnCompletionOk := False\<rparr>)
         (ex_renderer_busy, ex_device_busy\<lparr>gpuSchedule := [(2, 1)]\<rparr>)
     = Returns (Some 7, ex_renderer_busy\<lparr>m_currentFrameIndex := 0\<rparr>,
         ex_device_busy\<lparr>gpuSchedule := [(2, 1)], calls := calls ex_device_busy @
           [ResourceManager_BeginFrame, SetEventOnCompletion 2 1 3,
            Printf (SetEventOnCompletion_failed 0), CommandAllocator_Reset 1,
            CommandList_Reset 7 1,
            TransitionBarrier D3D12_RESOURCE_STATE_PRESENT D3D12_RESOURCE_STATE_RENDER_TARGET]\<rparr>)"
  using BeginFrame_waits_for_own_slot_value
      [of ex_renderer_busy "\<lparr>GetBufferCount = 2\<rparr>" "ex_pool_busy ! 0" "ex_pool_busy ! 1" 2 1
          "ex_begin 0" ex_device_busy]
    BeginFrame_waits_for_own_slot_value
      [of ex_renderer_busy "\<lparr>GetBufferCount = 2\<rparr>" "ex_pool_busy ! 0" "ex_pool_busy ! 1" 2 1
          "ex_begin 0" "ex_device_busy\<lparr>gpuSchedule := [(2, 1)]\<rparr>"]
    BeginFrame_waits_for_own_slot_value
      [of ex_renderer_busy "\<lparr>GetBufferCount = 2\<rparr>" "ex_pool_busy ! 0" "ex_pool_busy ! 1" 2 1
          "ex_begin 0" "gpu_complete 2 1 ex_device_busy"]
    BeginFrame_waits_for_own_slot_value
      [of ex_renderer_busy "\<lparr>GetBufferCount = 2\<rparr>" "ex_pool_busy ! 0" "ex_pool_busy ! 1" 2 1
          "(ex_begin 0)\<lparr>setEventOnCompletionOk := False\<rparr>"
          "ex_device_busy\<lparr>gpuSchedule := [(2, 1)]\<rparr>"]
    ex_two_frames
  by (simp add: ex_defs BeginFrame_def WaitForFrame_def WaitForSingleObject_INFINITE_def
        gpu_complete_def emit_def Let_def fun_eq_iff)

text \<open>
  The claim as the spec has it fails in its own scenario when \<open>SetEventOnCompletion\<close> fails
  in the third \<open>BeginFrame\<close>: the allocator of slot 0 (handle 1) is reset with no wait, the
  fence of slot 0 (handle 2) is still at 0, below the recorded value 1, and the completion
  the GPU had scheduled for it is still to come.
\<close>

theorem BeginFrame_third_frame_resets_without_waiting:
  "run [Op_BeginFrame (ex_begin 0), Op_EndFrame ex_end ex_config,
        Op_BeginFrame (ex_begin 1), Op_EndFrame ex_end ex_config,
        Op_BeginFrame ((ex_begin 0)\<lparr>setEventOnCompletionOk := False\<rparr>)]
       (ex_renderer, ex_device\<lparr>gpuSchedule := [(2, 1)]\<rparr>)
     = Returns (ex_renderer_busy\<lparr>m_currentFrameIndex := 0\<rparr>,
         ex_device_busy\<lparr>gpuSchedule := [(2, 1)], calls := calls ex_device_busy @
           [ResourceManager_BeginFrame, SetEventOnCompletion 2 1 3,
            Printf (SetEventOnCompletion_failed 0), CommandAllocator_Reset 1,
            CommandList_Reset 7 1,
            TransitionBarrier D3D12_RESOURCE_STATE_PRESENT D3D12_RESOURCE_STATE_RENDER_TARGET]\<rparr>)
   \<and> map fenceValue (m_frameResources ex_renderer_busy) = [1, 2]
   \<and> map frameFence (m_frameResources ex_renderer_busy) = [Some 2, Some 5]
   \<and> completedValue ex_device_busy 2 = 0"
  by (simp add: ex_defs BeginFrame_def EndFrame_def WaitForFrame_def emit_def Let_def)

text \<open>
  C2, as the code has it. First, provided that the registration of the wait
  (\<open>SetEventOnCompletion\<close>) succeeds, when \<open>BeginFrame\<close> returns the fence of the slot it
  selected is complete. Second, on a slot that has a fence and an allocator the calls of
  \<open>BeginFrame\<close> come in this order. When the slot was never submitted or its fence is
  complete, the allocator is reset at once, with no wait. When the fence is incomplete and
  the registration succeeds, \<open>BeginFrame\<close> registers the wait for the recorded value, waits,
  and resets the allocator only after the wait, the fence being complete by then; when the
  GPU never brings the fence that far it stays blocked and has made no reset. When the
  fence is incomplete and the registration fails, \<open>BeginFrame\<close> prints the failure and
  resets the allocator without waiting. Third, with a succeeding registration on a slot
  whose recorded value is not 0 and not reached, \<open>BeginFrame\<close> blocks exactly when the GPU
  has no update scheduled that brings the slot's fence to the recorded value or beyond.
  Fourth and fifth, the same for the \<open>BeginFrame\<close> that comes back to the slot of the first
  of a sequence of frames that ran in different slots of a pool never submitted before,
  with nothing completed by the GPU since (after \<open>bufferCount\<close> frames, the
  \<open>bufferCount + 1\<close>-th \<open>BeginFrame\<close>): the frames return, and the next \<open>BeginFrame\<close>
  registers the wait for the value the first frame signalled and either stays blocked,
  with no reset made, or returns once the GPU has delivered that value, resetting the
  allocator after the wait.
\<close>

theorem BeginFrame_backpressure:
  "(setEventOnCompletionOk env \<and> BeginFrame env (r, d) = Returns (cl, r', d')
      \<longrightarrow> IsFrameComplete r' d' (GetCurrentBackBufferIndex env) = Returns True)
   \<and> (m_swapChain r \<noteq> None
      \<and> unat (GetCurrentBackBufferIndex env) < length (m_frameResources r)
      \<and> m_frameResources r ! unat (GetCurrentBackBufferIndex env) = slot
      \<and> frameFence slot = Some f \<and> commandAllocator slot = Some a
      \<longrightarrow> (case BeginFrame env (r, d) of
             Returns (cl, r', d') \<Rightarrow>
               (if fenceValue slot = 0 \<or> fenceValue slot \<le> completedValue d f
                then take 2 (new_calls d d') =
                       [ResourceManager_BeginFrame, CommandAllocator_Reset a]
                     \<and> completedValue d' = completedValue d
                     \<and> (\<forall>e. WaitForSingleObject e \<notin> set (new_calls d d'))
                else if setEventOnCompletionOk env
                then take 4 (new_calls d d') =
                       [ResourceManager_BeginFrame,
                        SetEventOnCompletion f (fenceValue slot) (fenceEvent slot),
                        WaitForSingleObject (fenceEvent slot), CommandAllocator_Reset a]
                     \<and> fenceValue slot \<le> completedValue d' f
                     \<and> (\<exists>(g, v) \<in> set (gpuSchedule d). g = f \<and> fenceValue slot \<le> v)
                else take 4 (new_calls d d') =
                       [ResourceManager_BeginFrame,
                        SetEventOnCompletion f (fenceValue slot) (fenceEvent slot),
                        Printf (SetEventOnCompletion_failed (GetCurrentBackBufferIndex env)),
                        CommandAllocator_Reset a]
                     \<and> completedValue d' = completedValue d
                     \<and> (\<forall>e. WaitForSingleObject e \<notin> set (new_calls d d')))
           | Blocked d' \<Rightarrow>
               setEventOnCompletionOk env
               \<and> fenceValue slot \<noteq> 0 \<and> completedValue d f < fenceValue slot
               \<and> new_calls d d' =
                   [ResourceManager_BeginFrame,
                    SetEventOnCompletion f (fenceValue slot) (fenceEvent slot),
                    WaitForSingleObject (fenceEvent slot)]
               \<and> (\<forall>(g, v) \<in> set (gpuSchedule d). \<not> (g = f \<and> fenceValue slot \<le> v))
           | Undefined \<Rightarrow> False))
   \<and> (m_swapChain r \<noteq> None
      \<and> unat (GetCurrentBackBufferIndex env) < length (m_frameResources r)
      \<and> fenceValue (m_frameResources r ! unat (GetCurrentBackBufferIndex env)) \<noteq> 0
      \<and> frameFence (m_frameResources r ! unat (GetCurrentBackBufferIndex env)) = Some f
      \<and> completedValue d f < fenceValue (m_frameResources r ! unat (GetCurrentBackBufferIndex env))
      \<and> setEventOnCompletionOk env
      \<longrightarrow> ((\<exists>d'. BeginFrame env (r, d) = Blocked d') \<longleftrightarrow>
           (\<forall>(g, v) \<in> set (gpuSchedule d).
              \<not> (g = f \<and> fenceValue (m_frameResources r ! unat (GetCurrentBackBufferIndex env)) \<le> v))))
   \<and> (m_swapChain r \<noteq> None
      \<and> (\<forall>frame \<in> set (m_frameResources r).
             fenceValue frame = 0 \<and> commandAllocator frame \<noteq> None)
      \<and> distinct (map frame_index (f0 # fs))
      \<and> (\<forall>f \<in> set (f0 # fs). unat (frame_index f) < length (m_frameResources r))
      \<and> closeOk (fst (snd f0))
      \<and> frameFence (m_frameResources r ! unat (frame_index f0)) = Some f
      \<and> completedValue d f < m_nextFenceValue r
      \<and> GetCurrentBackBufferIndex env = frame_index f0
      \<and> setEventOnCompletionOk env
      \<longrightarrow> ((\<exists>d'. run (frame_ops (f0 # fs) @ [Op_BeginFrame env]) (r, d) = Blocked d') \<longleftrightarrow>
           (\<forall>(g, v) \<in> set (gpuSchedule d). \<not> (g = f \<and> m_nextFenceValue r \<le> v))))
   \<and> (m_swapChain r \<noteq> None
      \<and> (\<forall>frame \<in> set (m_frameResources r).
             fenceValue frame = 0 \<and> commandAllocator frame \<noteq> None)
      \<and> distinct (map frame_index (f0 # fs))
      \<and> (\<forall>fr \<in> set (f0 # fs). unat (frame_index fr) < length (m_frameResources r))
      \<and> closeOk (fst (snd f0))
      \<and> m_frameResources r ! unat (frame_index f0) = slot
      \<and> frameFence slot = Some f \<and> commandAllocator slot = Some a
      \<and> completedValue d f < m_nextFenceValue r
      \<and> GetCurrentBackBufferIndex env = frame_index f0
      \<and> setEventOnCompletionOk env
      \<longrightarrow> (\<exists>r1 d1. run (frame_ops (f0 # fs)) (r, d) = Returns (r1, d1)
             \<and> completedValue d1 = completedValue d \<and> gpuSchedule d1 = gpuSchedule d
             \<and> (case run (frame_ops (f0 # fs) @ [Op_BeginFrame env]) (r, d) of
                  Returns (r', d') \<Rightarrow>
                    take 4 (new_calls d1 d') =
                      [ResourceManager_BeginFrame,
                       SetEventOnCompletion f (m_nextFenceValue r) (fenceEvent slot),
                       WaitForSingleObject (fenceEvent slot), CommandAllocator_Reset a]
                    \<and> m_nextFenceValue r \<le> completedValue d' f
                    \<and> (\<exists>(g, v) \<in> set (gpuSchedule d). g = f \<and> m_nextFenceValue r \<le> v)
                | Blocked d' \<Rightarrow>
                    new_calls d1 d' =
                      [ResourceManager_BeginFrame,
                       SetEventOnCompletion f (m_nextFenceValue r) (fenceEvent slot),
                       WaitForSingleObject (fenceEvent slot)]
                    \<and> (\<forall>(g, v) \<in> set (gpuSchedule d). \<not> (g = f \<and> m_nextFenceValue r \<le> v))
                | Undefined \<Rightarrow> False)))"
proof (intro conjI impI)
  assume "setEventOnCompletionOk env \<and> BeginFrame env (r, d) = Returns (cl, r', d')"
  then show "IsFrameComplete r' d' (GetCurrentBackBufferIndex env) = Returns True"
    using BeginFrame_complete by blast
next
  assume h: "m_swapChain r \<noteq> None
      \<and> unat (GetCurrentBackBufferIndex env) < length (m_frameResources r)
      \<and> m_frameResources r ! unat (GetCurrentBackBufferIndex env) = slot
      \<and> frameFence slot = Some f \<and> commandAllocator slot = Some a"
  then obtain sc where sc: "m_swapChain r = Some sc" by auto
  have "case BeginFrame env (r, d) of
           Returns (cl, r', d') \<Rightarrow>
             r' = r\<lparr>m_currentFrameIndex := GetCurrentBackBufferIndex env\<rparr>
             \<and> (if fenceValue slot = 0 \<or> fenceValue slot \<le> completedValue d f
                then take 2 (new_calls d d') =
                       [ResourceManager_BeginFrame, CommandAllocator_Reset a]
                     \<and> completedValue d' = completedValue d
                     \<and> (\<forall>e. WaitForSingleObject e \<notin> set (new_calls d d'))
                else if setEventOnCompletionOk env
                then take 4 (new_calls d d') =
                       [ResourceManager_BeginFrame,
                        SetEventOnCompletion f (fenceValue slot) (fenceEvent slot),
                        WaitForSingleObject (fenceEvent slot), CommandAllocator_Reset a]
                     \<and> fenceValue slot \<le> completedValue d' f
                     \<and> (\<exists>(g, v) \<in> set (gpuSchedule d). g = f \<and> fenceValue slot \<le> v)
                else take 4 (new_calls d d') =
                       [ResourceManager_BeginFrame,
                        SetEventOnCompletion f (fenceValue slot) (fenceEvent slot),
                        Printf (SetEventOnCompletion_failed (GetCurrentBackBufferIndex env)),
                        CommandAllocator_Reset a]
                     \<and> completedValue d' = completedValue d
                     \<and> (\<forall>e. WaitForSingleObject e \<notin> set (new_calls d d')))
         | Blocked d' \<Rightarrow>
             setEventOnCompletionOk env
             \<and> fenceValue slot \<noteq> 0 \<and> completedValue d f < fenceValue slot
             \<and> new_calls d d' =
                 [ResourceManager_BeginFrame,
                  SetEventOnCompletion f (fenceValue slot) (fenceEvent slot),
                  WaitForSingleObject (fenceEvent slot)]
             \<and> (\<forall>(g, v) \<in> set (gpuSchedule d). \<not> (g = f \<and> fenceValue slot \<le> v))
         | Undefined \<Rightarrow> False"
    using BeginFrame_outcome[OF sc, of env slot f a d] h by blast
  then show "case BeginFrame env (r, d) of
             Returns (cl, r', d') \<Rightarrow>
               (if fenceValue slot = 0 \<or> fenceValue slot \<le> completedValue d f
                then take 2 (new_calls d d') =
                       [ResourceManager_BeginFrame, CommandAllocator_Reset a]
                     \<and> completedValue d' = completedValue d
                     \<and> (\<forall>e. WaitForSingleObject e \<notin> set (new_calls d d'))
                else if setEventOnCompletionOk env
                then take 4 (new_calls d d') =
                       [ResourceManager_BeginFrame,
                        SetEventOnCompletion f (fenceValue slot) (fenceEvent slot),
                        WaitForSingleObject (fenceEvent slot), CommandAllocator_Reset a]
                     \<and> fenceValue slot \<le> completedValue d' f
                     \<and> (\<exists>(g, v) \<in> set (gpuSchedule d). g = f \<and> fenceValue slot \<le> v)
                else take 4 (new_calls d d') =
                       [ResourceManager_BeginFrame,
                        SetEventOnCompletion f (fenceValue slot) (fenceEvent slot),
                        Printf (SetEventOnCompletion_failed (GetCurrentBackBufferIndex env)),
                        CommandAllocator_Reset a]
                     \<and> completedValue d' = completedValue d
                     \<and> (\<forall>e. WaitForSingleObject e \<notin> set (new_calls d d')))
           | Blocked d' \<Rightarrow>
               setEventOnCompletionOk env
               \<and> fenceValue slot \<noteq> 0 \<and> completedValue d f < fenceValue slot
               \<and> new_calls d d' =
                   [ResourceManager_BeginFrame,
                    SetEventOnCompletion f (fenceValue slot) (fenceEvent slot),
                    WaitForSingleObject (fenceEvent slot)]
               \<and> (\<forall>(g, v) \<in> set (gpuSchedule d). \<not> (g = f \<and> fenceValue slot \<le> v))
           | Undefined \<Rightarrow> False"
    by (auto split: outcome.splits)
next
  assume h: "m_swapChain r \<noteq> None
      \<and> unat (GetCurrentBackBufferIndex env) < length (m_frameResources r)
      \<and> fenceValue (m_frameResources r ! unat (GetCurrentBackBufferIndex env)) \<noteq> 0
      \<and> frameFence (m_frameResources r ! unat (GetCurrentBackBufferIndex env)) = Some f
      \<and> completedValue d f < fenceValue (m_frameResources r ! unat (GetCurrentBackBufferIndex env))
      \<and> setEventOnCompletionOk env"
  then obtain sc where sc: "m_swapChain r = Some sc" by auto
  from h BeginFrame_Blocked_iff[OF sc, of env f d]
  show "(\<exists>d'. BeginFrame env (r, d) = Blocked d') \<longleftrightarrow>
           (\<forall>(g, v) \<in> set (gpuSchedule d).
              \<not> (g = f \<and> fenceValue (m_frameResources r ! unat (GetCurrentBackBufferIndex env)) \<le> v))"
    by blast
next
  assume h: "m_swapChain r \<noteq> None
      \<and> (\<forall>frame \<in> set (m_frameResources r).
             fenceValue frame = 0 \<and> commandAllocator frame \<noteq> None)
      \<and> distinct (map frame_index (f0 # fs))
      \<and> (\<forall>f \<in> set (f0 # fs). unat (frame_index f) < length (m_frameResources r))
      \<and> closeOk (fst (snd f0))
      \<and> frameFence (m_frameResources r ! unat (frame_index f0)) = Some f
      \<and> completedValue d f < m_nextFenceValue r
      \<and> GetCurrentBackBufferIndex env = frame_index f0
      \<and> setEventOnCompletionOk env"
  then obtain sc where sc: "m_swapChain r = Some sc" by auto
  have al: "\<forall>frame \<in> set (m_frameResources r). commandAllocator frame \<noteq> None"
    using h by simp
  have di: "distinct (map frame_index (f0 # fs))" using h by simp
  have rg: "\<forall>f \<in> set (f0 # fs). unat (frame_index f) < length (m_frameResources r)
                       \<and> fenceValue (m_frameResources r ! unat (frame_index f)) = 0"
    using h by simp
  have cl: "closeOk (fst (snd f0))" using h by simp
  from run_frames_first[OF sc al di rg cl, of d]
  obtain r1 d1 where
    fr: "run (frame_ops (f0 # fs)) (r, d) = Returns (r1, d1)"
    and sc1: "m_swapChain r1 = Some sc"
    and len1: "length (m_frameResources r1) = length (m_frameResources r)"
    and ff1: "frameFence (m_frameResources r1 ! unat (frame_index f0)) = Some f"
    and fv1: "fenceValue (m_frameResources r1 ! unat (frame_index f0)) = m_nextFenceValue r"
    and d1: "completedValue d1 = completedValue d" "gpuSchedule d1 = gpuSchedule d"
    using h sc by auto
  have idx: "GetCurrentBackBufferIndex env = frame_index f0" using h by simp
  have i1: "unat (GetCurrentBackBufferIndex env) < length (m_frameResources r1)"
    using rg len1 idx by simp
  have lt: "completedValue d f < m_nextFenceValue r" using h by simp
  then have nz: "m_nextFenceValue r \<noteq> 0"
    by (metis word_not_simps(1))
  have ok: "setEventOnCompletionOk env" using h by simp
  have "(\<exists>d'. BeginFrame env (r1, d1) = Blocked d') \<longleftrightarrow>
           (\<forall>(g, v) \<in> set (gpuSchedule d1). \<not> (g = f \<and> m_nextFenceValue r \<le> v))"
    using BeginFrame_Blocked_iff[OF sc1 i1 _ _ _ ok, of f d1] ff1 fv1 nz lt d1 idx
    by simp
  moreover have "run (frame_ops (f0 # fs) @ [Op_BeginFrame env]) (r, d)
          = (case BeginFrame env (r1, d1) of
               Returns (cl, r, d) \<Rightarrow> Returns (r, d)
             | Blocked d \<Rightarrow> Blocked d
             | Undefined \<Rightarrow> Undefined)"
    using fr by (simp add: run_append split: outcome.splits)
  ultimately show "(\<exists>d'. run (frame_ops (f0 # fs) @ [Op_BeginFrame env]) (r, d) = Blocked d') \<longleftrightarrow>
           (\<forall>(g, v) \<in> set (gpuSchedule d). \<not> (g = f \<and> m_nextFenceValue r \<le> v))"
    using d1 by (auto split: outcome.splits)
next
  assume h: "m_swapChain r \<noteq> None
      \<and> (\<forall>frame \<in> set (m_frameResources r).
             fenceValue frame = 0 \<and> commandAllocator frame \<noteq> None)
      \<and> distinct (map frame_index (f0 # fs))
      \<and> (\<forall>fr \<in> set (f0 # fs). unat (frame_index fr) < length (m_frameResources r))
      \<and> closeOk (fst (snd f0))
      \<and> m_frameResources r ! unat (frame_index f0) = slot
      \<and> frameFence slot = Some f \<and> commandAllocator slot = Some a
      \<and> completedValue d f < m_nextFenceValue r
      \<and> GetCurrentBackBufferIndex env = frame_index f0
      \<and> setEventOnCompletionOk env"
  then obtain sc where sc: "m_swapChain r = Some sc" by auto
  have al: "\<forall>frame \<in> set (m_frameResources r). commandAllocator frame \<noteq> None"
    using h by simp
  have di: "distinct (map frame_index (f0 # fs))" using h by simp
  have rg: "\<forall>fr \<in> set (f0 # fs). unat (frame_index fr) < length (m_frameResources r)
                       \<and> fenceValue (m_frameResources r ! unat (frame_index fr)) = 0"
  proof
    fix fr assume m: "fr \<in> set (f0 # fs)"
    with h have i: "unat (frame_index fr) < length (m_frameResources r)" by blast
    then have "m_frameResources r ! unat (frame_index fr) \<in> set (m_frameResources r)"
      by (rule nth_mem)
    with h have "fenceValue (m_frameResources r ! unat (frame_index fr)) = 0" by blast
    with i show "unat (frame_index fr) < length (m_frameResources r)
                       \<and> fenceValue (m_frameResources r ! unat (frame_index fr)) = 0" by simp
  qed
  have cl: "closeOk (fst (snd f0))" using h by simp
  define slot1 where "slot1 = slot\<lparr>fenceValue := m_nextFenceValue r\<rparr>"
  from run_frames_first[OF sc al di rg cl, of d]
  obtain r1 d1 where
    fr: "run (frame_ops (f0 # fs)) (r, d) = Returns (r1, d1)"
    and sc1: "m_swapChain r1 = Some sc"
    and len1: "length (m_frameResources r1) = length (m_frameResources r)"
    and s1: "m_frameResources r1 ! unat (frame_index f0) = slot1"
    and d1: "completedValue d1 = completedValue d" "gpuSchedule d1 = gpuSchedule d"
    using h sc by (auto simp: slot1_def)
  have idx: "GetCurrentBackBufferIndex env = frame_index f0" using h by simp
  have i1: "unat (GetCurrentBackBufferIndex env) < length (m_frameResources r1)"
    using rg len1 idx by simp
  have s1': "m_frameResources r1 ! unat (GetCurrentBackBufferIndex env) = slot1"
    using s1 idx by simp
  have lt: "completedValue d1 f < fenceValue slot1" using h d1 by (simp add: slot1_def)
  then have nz: "fenceValue slot1 \<noteq> 0"
    by (metis word_not_simps(1))
  have ok: "setEventOnCompletionOk env" using h by simp
  have ff: "frameFence slot1 = Some f" and ca: "commandAllocator slot1 = Some a"
    and fe: "fenceEvent slot1 = fenceEvent slot" and fv: "fenceValue slot1 = m_nextFenceValue r"
    using h by (simp_all add: slot1_def)
  have st: "run (frame_ops (f0 # fs) @ [Op_BeginFrame env]) (r, d)
          = (case BeginFrame env (r1, d1) of
               Returns (cl, r, d) \<Rightarrow> Returns (r, d)
             | Blocked d \<Rightarrow> Blocked d
             | Undefined \<Rightarrow> Undefined)"
    using fr by (simp add: run_append split: outcome.splits)
  have "case run (frame_ops (f0 # fs) @ [Op_BeginFrame env]) (r, d) of
                  Returns (r', d') \<Rightarrow>
                    take 4 (new_calls d1 d') =
                      [ResourceManager_BeginFrame,
                       SetEventOnCompletion f (m_nextFenceValue r) (fenceEvent slot),
                       WaitForSingleObject (fenceEvent slot), CommandAllocator_Reset a]
                    \<and> m_nextFenceValue r \<le> completedValue d' f
                    \<and> (\<exists>(g, v) \<in> set (gpuSchedule d). g = f \<and> m_nextFenceValue r \<le> v)
                | Blocked d' \<Rightarrow>
                    new_calls d1 d' =
                      [ResourceManager_BeginFrame,
                       SetEventOnCompletion f (m_nextFenceValue r) (fenceEvent slot),
                       WaitForSingleObject (fenceEvent slot)]
                    \<and> (\<forall>(g, v) \<in> set (gpuSchedule d). \<not> (g = f \<and> m_nextFenceValue r \<le> v))
                | Undefined \<Rightarrow> False"
  proof (cases "BeginFrame env (r1, d1)")
    case (Returns x)
    obtain cl1 r2 d2 where x: "x = (cl1, r2, d2)" by (cases x) auto
    have nc: "\<not> (fenceValue slot1 = 0 \<or> fenceValue slot1 \<le> completedValue d1 f)"
      using lt nz by (simp add: not_le)
    from BeginFrame_outcome[OF sc1 i1 s1' ff ca, of d1]
    have "take 4 (new_calls d1 d2) =
                      [ResourceManager_BeginFrame,
                       SetEventOnCompletion f (fenceValue slot1) (fenceEvent slot1),
                       WaitForSingleObject (fenceEvent slot1), CommandAllocator_Reset a]
                    \<and> fenceValue slot1 \<le> completedValue d2 f
                    \<and> (\<exists>(g, v) \<in> set (gpuSchedule d1). g = f \<and> fenceValue slot1 \<le> v)"
      unfolding Returns x using nc ok by simp
    then show ?thesis
      unfolding st Returns x fe fv d1 by simp
  next
    case (Blocked d2)
    from BeginFrame_outcome[OF sc1 i1 s1' ff ca, of d1]
    have "new_calls d1 d2 =
                      [ResourceManager_BeginFrame,
                       SetEventOnCompletion f (fenceValue slot1) (fenceEvent slot1),
                       WaitForSingleObject (fenceEvent slot1)]
                    \<and> (\<forall>(g, v) \<in> set (gpuSchedule d1). \<not> (g = f \<and> fenceValue slot1 \<le> v))"
      unfolding Blocked by simp
    then show ?thesis
      unfolding st Blocked fe fv d1 by simp
  next
    case Undefined
    from BeginFrame_outcome[OF sc1 i1 s1' ff ca, of d1]
    show ?thesis unfolding Undefined by simp
  qed
  with fr d1 show "\<exists>r1 d1. run (frame_ops (f0 # fs)) (r, d) = Returns (r1, d1)
             \<and> completedValue d1 = completedValue d \<and> gpuSchedule d1 = gpuSchedule d
             \<and> (case run (frame_ops (f0 # fs) @ [Op_BeginFrame env]) (r, d) of
                  Returns (r', d') \<Rightarrow>
                    take 4 (new_calls d1 d') =
                      [ResourceManager_BeginFrame,
                       SetEventOnCompletion f (m_nextFenceValue r) (fenceEvent slot),
                       WaitForSingleObject (fenceEvent slot), CommandAllocator_Reset a]
                    \<and> m_nextFenceValue r \<le> completedValue d' f
                    \<and> (\<exists>(g, v) \<in> set (gpuSchedule d). g = f \<and> m_nextFenceValue r \<le> v)
                | Blocked d' \<Rightarrow>
                    new_calls d1 d' =
                      [ResourceManager_BeginFrame,
                       SetEventOnCompletion f (m_nextFenceValue r) (fenceEvent slot),
                       WaitForSingleObject (fenceEvent slot)]
                    \<and> (\<forall>(g, v) \<in> set (gpuSchedule d). \<not> (g = f \<and> m_nextFenceValue r \<le> v))
                | Undefined \<Rightarrow> False)"
    by blast
qed

theorem BeginFrame_backpressure_witness:
  "setEventOnCompletionOk (ex_begin 0)
   \<and> m_swapChain ex_renderer_busy \<noteq> None
   \<and> unat (GetCurrentBackBufferIndex (ex_begin 0)) < length (m_frameResources ex_renderer_busy)
   \<and> fenceValue (m_frameResources ex_renderer_busy ! unat (GetCurrentBackBufferIndex (ex_begin 0))) = 1
   \<and> frameFence (m_frameResources ex_renderer_busy ! unat (GetCurrentBackBufferIndex (ex_begin 0))) = Some 2
   \<and> commandAllocator (m_frameResources ex_renderer_busy ! unat (GetCurrentBackBufferIndex (ex_begin 0))) = Some 1
   \<and> completedValue ex_device_busy 2 = 0
   \<and> BeginFrame (ex_begin 0) (ex_renderer_busy, ex_device_busy)
       = Blocked (ex_device_busy\<lparr>calls := calls ex_device_busy @
           [ResourceManager_BeginFrame, SetEventOnCompletion 2 1 3, WaitForSingleObject 3]\<rparr>)
   \<and> (\<exists>d'. BeginFrame (ex_begin 0) (ex_renderer_busy, ex_device_busy\<lparr>gpuSchedule := [(5, 2)]\<rparr>)
              = Blocked d')
   \<and> run (frame_ops [(ex_begin 0, ex_end, ex_config), (ex_begin 1, ex_end, ex_config)])
         (ex_renderer, ex_device) = Returns (ex_renderer_busy, ex_device_busy)
   \<and> run (frame_ops [(ex_begin 0, ex_end, ex_config), (ex_begin 1, ex_end, ex_config)]
            @ [Op_BeginFrame (ex_begin 0)]) (ex_renderer, ex_device)
       = Blocked (ex_device_busy\<lparr>calls := calls ex_device_busy @
           [ResourceManager_BeginFrame, SetEventOnCompletion 2 1 3, WaitForSingleObject 3]\<rparr>)
   \<and> run (frame_ops [(ex_begin 0, ex_end, ex_config), (ex_begin 1, ex_end, ex_config)]
            @ [Op_BeginFrame (ex_begin 0)]) (ex_renderer, ex_device\<lparr>gpuSchedule := [(2, 1)]\<rparr>)
       = Returns (ex_renderer_busy\<lparr>m_currentFrameIndex := 0\<rparr>,
           ex_device_busy\<lparr>completedValue := (\<lambda>_. 0)(2 := 1), calls := calls ex_device_busy @
             [ResourceManager_BeginFrame, SetEventOnCompletion 2 1 3, WaitForSingleObject 3,
              CommandAllocator_Reset 1, CommandList_Reset 7 1,
              TransitionBarrier D3D12_RESOURCE_STATE_PRESENT D3D12_RESOURCE_STATE_RENDER_TARGET]\<rparr>)
   \<and> BeginFrame (ex_begin 0) (ex_renderer_busy, ex_device_busy\<lparr>gpuSchedule := [(2, 1)]\<rparr>)
       = Returns (Some 7, ex_renderer_busy\<lparr>m_currentFrameIndex := 0\<rparr>,
           ex_device_busy\<lparr>completedValue := (\<lambda>_. 0)(2 := 1), calls := calls ex_device_busy @
             [ResourceManager_BeginFrame, SetEventOnCompletion 2 1 3, WaitForSingleObject 3,
              CommandAllocator_Reset 1, CommandList_Reset 7 1,
              TransitionBarrier D3D12_RESOURCE_STATE_PRESENT D3D12_RESOURCE_STATE_RENDER_TARGET]\<rparr>)
   \<and> IsFrameComplete (ex_renderer_busy\<lparr>m_currentFrameIndex := 0\<rparr>)
         (ex_device_busy\<lparr>completedValue := (\<lambda>_. 0)(2 := 1), calls := calls ex_device_busy @
             [ResourceManager_BeginFrame, SetEventOnCompletion 2 1 3, WaitForSingleObject 3,
              CommandAllocator_Reset 1, CommandList_Reset 7 1,
              TransitionBarrier D3D12_RESOURCE_STATE_PRESENT D3D12_RESOURCE_STATE_RENDER_TARGET]\<rparr>)
         0 = Returns True
   \<and> BeginFrame ((ex_begin 0)\<lparr>setEventOnCompletionOk := False\<rparr>) (ex_renderer_busy, ex_device_busy)
       = Returns (Some 7, ex_renderer_busy\<lparr>m_currentFrameIndex := 0\<rparr>,
           ex_device_busy\<lparr>calls := calls ex_device_busy @
             [ResourceManager_BeginFrame, SetEventOnCompletion 2 1 3,
              Printf (SetEventOnCompletion_failed 0), CommandAllocator_Reset 1,
              CommandList_Reset 7 1,
              TransitionBarrier D3D12_RESOURCE_STATE_PRESENT D3D12_RESOURCE_STATE_RENDER_TARGET]\<rparr>)"
  using BeginFrame_backpressure
      [of "ex_begin 0" ex_renderer_busy "ex_device_busy\<lparr>gpuSchedule := [(2, 1)]\<rparr>" "Some 7"
          "ex_renderer_busy\<lparr>m_currentFrameIndex := 0\<rparr>"
          "ex_device_busy\<lparr>completedValue := (\<lambda>_. 0)(2 := 1), calls := calls ex_device_busy @
             [ResourceManager_BeginFrame, SetEventOnCompletion 2 1 3, WaitForSingleObject 3,
              CommandAllocator_Reset 1, CommandList_Reset 7 1,
              TransitionBarrier D3D12_RESOURCE_STATE_PRESENT D3D12_RESOURCE_STATE_RENDER_TARGET]\<rparr>"
          "ex_pool_busy ! 0" 2 1 "(ex_begin 0, ex_end, ex_config)" "[]"]
    BeginFrame_backpressure
      [of "ex_begin 0" ex_renderer_busy ex_device_busy None ex_renderer_busy ex_device_busy
          "ex_pool_busy ! 0" 2 1 "(ex_begin 0, ex_end, ex_config)" "[]"]
    BeginFrame_backpressure
      [of "ex_begin 0" ex_renderer_busy "ex_device_busy\<lparr>gpuSchedule := [(5, 2)]\<rparr>" None
          ex_renderer_busy ex_device_busy "ex_pool_busy ! 0" 2 1
          "(ex_begin 0, ex_end, ex_config)" "[]"]
    BeginFrame_backpressure
      [of "(ex_begin 0)\<lparr>setEventOnCompletionOk := False\<rparr>" ex_renderer_busy ex_device_busy None
          ex_renderer_busy ex_device_busy "ex_pool_busy ! 0" 2 1
          "(ex_begin 0, ex_end, ex_config)" "[]"]
    BeginFrame_backpressure
      [of "ex_begin 0" ex_renderer ex_device None ex_renderer ex_device "ex_pool ! 0" 2 1
          "(ex_begin 0, ex_end, ex_config)" "[(ex_begin 1, ex_end, ex_config)]"]
    BeginFrame_backpressure
      [of "ex_begin 0" ex_renderer "ex_device\<lparr>gpuSchedule := [(2, 1)]\<rparr>" None ex_renderer
          ex_device "ex_pool ! 0" 2 1
          "(ex_begin 0, ex_end, ex_config)" "[(ex_begin 1, ex_end, ex_config)]"]
  by (simp add: ex_defs frame_index_def BeginFrame_def EndFrame_def WaitForFrame_def
        WaitForSingleObject_INFINITE_def IsFrameComplete_def emit_def Let_def fun_eq_iff)

text \<open>
  The claim as the spec has it fails when the registration of the wait fails: after two
  frames on the example renderer with two slots, with nothing completed by the GPU, the
  third \<open>BeginFrame\<close> prints the failure, returns and resets the allocator of slot 0, whose
  fence is incomplete.
\<close>

theorem BeginFrame_registration_failure_no_wait:
  "run [Op_BeginFrame (ex_begin 0), Op_EndFrame ex_end ex_config,
        Op_BeginFrame (ex_begin 1), Op_EndFrame ex_end ex_config] (ex_renderer, ex_device)
     = Returns (ex_renderer_busy, ex_device_busy)
   \<and> BeginFrame ((ex_begin 0)\<lparr>setEventOnCompletionOk := False\<rparr>) (ex_renderer_busy, ex_device_busy)
     = Returns (Some 7, ex_renderer_busy\<lparr>m_currentFrameIndex := 0\<rparr>,
         ex_device_busy\<lparr>calls := calls ex_device_busy @
           [ResourceManager_BeginFrame, SetEventOnCompletion 2 1 3,
            Printf (SetEventOnCompletion_failed 0), CommandAllocator_Reset 1,
            CommandList_Reset 7 1,
            TransitionBarrier D3D12_RESOURCE_STATE_PRESENT D3D12_RESOURCE_STATE_RENDER_TARGET]\<rparr>)
   \<and> IsFrameComplete ex_renderer_busy ex_device_busy 0 = Returns False"
  by (simp add: ex_defs BeginFrame_def EndFrame_def WaitForFrame_def IsFrameComplete_def
        emit_def Let_def)

subsection \<open>Cold start\<close>

text \<open>
  C3. For a slot in range whose \<open>fenceValue\<close> is 0, \<open>IsFrameComplete\<close> returns true and
  \<open>WaitForFrame\<close> returns at once, having made no call, whatever the fence and the GPU.
  Hence, on a renderer all of whose slots have \<open>fenceValue = 0\<close> (and an allocator, and
  whose swap chain exists), frames that run in different slots, whatever the outcome of
  their calls, all return: no \<open>BeginFrame\<close> among them blocks, and no GPU completion is
  needed. A newly constructed renderer is such a renderer, so its first \<open>bufferCount\<close>
  frames, one in each slot, never block.
\<close>

theorem cold_start_never_blocks:
  "(unat i < length (m_frameResources r) \<and> fenceValue (m_frameResources r ! unat i) = 0
      \<longrightarrow> IsFrameComplete r d i = Returns True \<and> WaitForFrame r i ok d = Returns d)
   \<and> (m_swapChain r \<noteq> None
      \<and> (\<forall>frame \<in> set (m_frameResources r).
             fenceValue frame = 0 \<and> commandAllocator frame \<noteq> None)
      \<and> distinct (map frame_index fs)
      \<and> (\<forall>f \<in> set fs. unat (frame_index f) < length (m_frameResources r))
      \<longrightarrow> (\<exists>r' d'. run (frame_ops fs) (r, d) = Returns (r', d')
                    \<and> completedValue d' = completedValue d))
   \<and> (Renderer_ctor cenv config d0 = Constructed (r0, d1)
      \<and> distinct (map frame_index fs)
      \<and> (\<forall>f \<in> set fs. unat (frame_index f) < unat (GetBufferCount (swapChainCreated cenv)))
      \<longrightarrow> (\<exists>r' d'. run (frame_ops fs) (r0, d1) = Returns (r', d')
                    \<and> completedValue d' = completedValue d1))"
proof (intro conjI impI)
  assume "unat i < length (m_frameResources r) \<and> fenceValue (m_frameResources r ! unat i) = 0"
  then show "IsFrameComplete r d i = Returns True" "WaitForFrame r i ok d = Returns d"
    by (simp_all add: IsFrameComplete_def WaitForFrame_def)
next
  assume h: "m_swapChain r \<noteq> None
      \<and> (\<forall>frame \<in> set (m_frameResources r).
             fenceValue frame = 0 \<and> commandAllocator frame \<noteq> None)
      \<and> distinct (map frame_index fs)
      \<and> (\<forall>f \<in> set fs. unat (frame_index f) < length (m_frameResources r))"
  then obtain sc where sc: "m_swapChain r = Some sc" by auto
  have al: "\<forall>frame \<in> set (m_frameResources r). commandAllocator frame \<noteq> None"
    using h by simp
  have di: "distinct (map frame_index fs)" using h by simp
  have rg: "\<forall>f \<in> set fs. unat (frame_index f) < length (m_frameResources r)
                       \<and> fenceValue (m_frameResources r ! unat (frame_index f)) = 0"
    using h by simp
  from run_frames[OF sc al di rg, of d]
  show "\<exists>r' d'. run (frame_ops fs) (r, d) = Returns (r', d') \<and> completedValue d' = completedValue d"
    by blast
next
  assume h: "Renderer_ctor cenv config d0 = Constructed (r0, d1)
      \<and> distinct (map frame_index fs)
      \<and> (\<forall>f \<in> set fs. unat (frame_index f) < unat (GetBufferCount (swapChainCreated cenv)))"
  from Renderer_ctor_fresh[of cenv config d0 r0 d1] h have
    sc: "m_swapChain r0 = Some (swapChainCreated cenv)"
    and len: "length (m_frameResources r0) = unat (GetBufferCount (swapChainCreated cenv))"
    and fr: "\<forall>frame \<in> set (m_frameResources r0).
               fenceValue frame = 0 \<and> commandAllocator frame \<noteq> None"
    by simp_all
  have al: "\<forall>frame \<in> set (m_frameResources r0). commandAllocator frame \<noteq> None"
    using fr by simp
  have di: "distinct (map frame_index fs)" using h by simp
  have rg: "\<forall>f \<in> set fs. unat (frame_index f) < length (m_frameResources r0)
                       \<and> fenceValue (m_frameResources r0 ! unat (frame_index f)) = 0"
    using h fr len by simp
  from run_frames[OF sc al di rg, of d1]
  show "\<exists>r' d'. run (frame_ops fs) (r0, d1) = Returns (r', d') \<and> completedValue d' = completedValue d1"
    by blast
qed

theorem cold_start_never_blocks_witness:
  "Renderer_ctor ex_ctor_env ex_config ex_device0 = Constructed (ex_renderer, ex_device)
   \<and> unat (0 :: UINT) < length (m_frameResources ex_renderer)
   \<and> fenceValue (m_frameResources ex_renderer ! unat (0 :: UINT)) = 0
   \<and> IsFrameComplete ex_renderer ex_device 0 = Returns True
   \<and> WaitForFrame ex_renderer 0 True ex_device = Returns ex_device
   \<and> m_swapChain ex_renderer \<noteq> None
   \<and> map fenceValue (m_frameResources ex_renderer) = [0, 0]
   \<and> map commandAllocator (m_frameResources ex_renderer) = [Some 1, Some 4]
   \<and> map frame_index [(ex_begin 0, ex_end, ex_config), (ex_begin 1, ex_end, ex_config)] = [0, 1]
   \<and> run (frame_ops [(ex_begin 0, ex_end, ex_config), (ex_begin 1, ex_end, ex_config)])
        (ex_renderer, ex_device) = Returns (ex_renderer_busy, ex_device_busy)"
  using cold_start_never_blocks
      [of 0 ex_renderer ex_device True
          "[(ex_begin 0, ex_end, ex_config), (ex_begin 1, ex_end, ex_config)]"
          ex_ctor_env ex_config ex_device0 ex_renderer ex_device]
    ex_two_frames ex_ctor
  by (simp add: ex_defs frame_index_def)

subsection \<open>The global fence value counter\<close>

text \<open>
  C4, as the code has it. The counter starts at 1 (the initial value is modelled from
  the spec). Along any run of \<open>BeginFrame\<close>, \<open>EndFrame\<close>, \<open>OnReconfigure\<close> and GPU completions
  from a newly constructed renderer, the values signalled are 1, 2, 3, ... in this order and
  the counter is one more than the last; each \<open>EndFrame\<close> whose close succeeds signals the
  current value of the counter and adds 1 to it; \<open>OnReconfigure\<close> leaves the counter as it
  is. The values are strictly increasing, distinct and never 0 as long as fewer than
  \<open>2 ^ 64\<close> values have been drawn: the counter is a \<open>UINT64\<close>.
\<close>

theorem fence_counter_monotonic:
  "(Renderer_ctor cenv config d0 = Constructed (r0, d1) \<and> calls d0 = []
      \<and> run ops (r0, d1) = Returns (r, d)
     \<longrightarrow> m_nextFenceValue r0 = 1
         \<and> drawn_values (calls d) =
             map (\<lambda>j. 1 + word_of_nat j) [0..<length (drawn_values (calls d))]
         \<and> m_nextFenceValue r = 1 + word_of_nat (length (drawn_values (calls d)))
         \<and> (length (drawn_values (calls d)) < 2 ^ 64
              \<longrightarrow> sorted_wrt (<) (drawn_values (calls d))
                  \<and> distinct (drawn_values (calls d))
                  \<and> 0 \<notin> set (drawn_values (calls d))))
   \<and> (EndFrame eenv config (ra, da) = Returns (ra', da') \<and> closeOk eenv
     \<longrightarrow> drawn_values (calls da') = drawn_values (calls da) @ [m_nextFenceValue ra]
         \<and> m_nextFenceValue ra' = m_nextFenceValue ra + 1)
   \<and> (OnReconfigure renv width height bufferCount (rb, db) = Returns (rb', db')
     \<longrightarrow> m_nextFenceValue rb' = m_nextFenceValue rb
         \<and> drawn_values (calls db') = drawn_values (calls db))"
proof (intro conjI impI)
  assume h: "Renderer_ctor cenv config d0 = Constructed (r0, d1) \<and> calls d0 = []
      \<and> run ops (r0, d1) = Returns (r, d)"
  from Renderer_ctor_counter[of cenv config d0 r0 d1] h have
    c0: "m_nextFenceValue r0 = 1" "drawn_values (calls d1) = []"
    by simp_all
  from run_counter[of ops r0 d1 r d] h c0 obtain k where
    k: "m_nextFenceValue r = 1 + word_of_nat k"
       "drawn_values (calls d) = map (\<lambda>j. 1 + word_of_nat j) [0..<k]"
    by auto
  have len: "length (drawn_values (calls d)) = k"
    using k(2) by simp
  show "m_nextFenceValue r0 = 1" by (fact c0(1))
  show "drawn_values (calls d) =
          map (\<lambda>j. 1 + word_of_nat j) [0..<length (drawn_values (calls d))]"
    using k(2) len by simp
  show "m_nextFenceValue r = 1 + word_of_nat (length (drawn_values (calls d)))"
    using k(1) len by simp
  {
    assume "length (drawn_values (calls d)) < 2 ^ 64"
    then have "k < 2 ^ 64" using len by simp
    from drawn_strictly_increasing[OF this] k(2)
    have s: "sorted_wrt (<) (drawn_values (calls d))" and z: "0 \<notin> set (drawn_values (calls d))"
      by simp_all
    show "sorted_wrt (<) (drawn_values (calls d))" by (fact s)
    show "distinct (drawn_values (calls d))" using s by (simp add: strict_sorted_iff)
    show "0 \<notin> set (drawn_values (calls d))" by (fact z)
  }
next
  assume "EndFrame eenv config (ra, da) = Returns (ra', da') \<and> closeOk eenv"
  then show "drawn_values (calls da') = drawn_values (calls da) @ [m_nextFenceValue ra]"
    "m_nextFenceValue ra' = m_nextFenceValue ra + 1"
    using EndFrame_counter[of eenv config ra da ra' da'] by simp_all
next
  assume "OnReconfigure renv width height bufferCount (rb, db) = Returns (rb', db')"
  then show "m_nextFenceValue rb' = m_nextFenceValue rb"
    "drawn_values (calls db') = drawn_values (calls db)"
    using OnReconfigure_counter by blast+
qed

theorem fence_counter_monotonic_witness:
  "Renderer_ctor ex_ctor_env ex_config ex_device0 = Constructed (ex_renderer, ex_device)
   \<and> calls ex_device0 = []
   \<and> run [Op_BeginFrame (ex_begin 0), Op_EndFrame ex_end ex_config,
          Op_BeginFrame (ex_begin 1), Op_EndFrame ex_end ex_config] (ex_renderer, ex_device)
       = Returns (ex_renderer_busy, ex_device_busy)
   \<and> drawn_values (calls ex_device_busy) = [1, 2]
   \<and> m_nextFenceValue ex_renderer_busy = 3
   \<and> sorted_wrt (<) (drawn_values (calls ex_device_busy))
   \<and> EndFrame ex_end ex_config (ex_renderer_busy, ex_device_busy)
       = Returns (ex_renderer_busy\<lparr>m_nextFenceValue := 4,
                    m_frameResources := [ex_pool_busy ! 0, (ex_pool_busy ! 1)\<lparr>fenceValue := 3\<rparr>]\<rparr>,
                  ex_device_busy\<lparr>calls := calls ex_device_busy @
                    [TransitionBarrier D3D12_RESOURCE_STATE_RENDER_TARGET D3D12_RESOURCE_STATE_PRESENT,
                     CommandList_Close 7, ExecuteCommandLists 7, Queue_Signal (Some 5) 3,
                     ResourceManager_EndFrame, SwapChain_Present True]\<rparr>)
   \<and> closeOk ex_end
   \<and> OnReconfigure ex_reconfigure_env 1024 768 3
        (ex_renderer_busy, ex_device_busy\<lparr>gpuSchedule := [(2, 1), (5, 2)]\<rparr>)
       = Returns (ex_renderer_reconfigured, ex_device_reconfigured)
   \<and> m_nextFenceValue ex_renderer_reconfigured = 3"
proof -
  have e: "EndFrame ex_end ex_config (ex_renderer_busy, ex_device_busy)
       = Returns (ex_renderer_busy\<lparr>m_nextFenceValue := 4,
                    m_frameResources := [ex_pool_busy ! 0, (ex_pool_busy ! 1)\<lparr>fenceValue := 3\<rparr>]\<rparr>,
                  ex_device_busy\<lparr>calls := calls ex_device_busy @
                    [TransitionBarrier D3D12_RESOURCE_STATE_RENDER_TARGET D3D12_RESOURCE_STATE_PRESENT,
                     CommandList_Close 7, ExecuteCommandLists 7, Queue_Signal (Some 5) 3,
                     ResourceManager_EndFrame, SwapChain_Present True]\<rparr>)"
    by (simp add: ex_defs EndFrame_def emit_def Let_def)
  show ?thesis
    using fence_counter_monotonic
        [of ex_ctor_env ex_config ex_device0 ex_renderer ex_device
            "[Op_BeginFrame (ex_begin 0), Op_EndFrame ex_end ex_config,
              Op_BeginFrame (ex_begin 1), Op_EndFrame ex_end ex_config]"
            ex_renderer_busy ex_device_busy ex_end ex_renderer_busy ex_device_busy
            "ex_renderer_busy\<lparr>m_nextFenceValue := 4,
                    m_frameResources := [ex_pool_busy ! 0, (ex_pool_busy ! 1)\<lparr>fenceValue := 3\<rparr>]\<rparr>"
            "ex_device_busy\<lparr>calls := calls ex_device_busy @
                    [TransitionBarrier D3D12_RESOURCE_STATE_RENDER_TARGET D3D12_RESOURCE_STATE_PRESENT,
                     CommandList_Close 7, ExecuteCommandLists 7, Queue_Signal (Some 5) 3,
                     ResourceManager_EndFrame, SwapChain_Present True]\<rparr>"
            ex_reconfigure_env 1024 768 3 ex_renderer_busy
            "ex_device_busy\<lparr>gpuSchedule := [(2, 1), (5, 2)]\<rparr>"
            ex_renderer_reconfigured ex_device_reconfigured]
      ex_ctor ex_two_frames e ex_reconfigure
    by (simp add: ex_device0_def ex_device_busy_def ex_device_def ex_frame_calls_def
          ex_renderer_busy_def ex_renderer_reconfigured_def ex_end_def)
qed

text \<open>
  The claim as the spec has it, that the values increase and never repeat over the whole
  lifetime, fails where the 64-bit counter wraps: in a run of \<open>2 ^ 64\<close> frames of a newly
  constructed renderer, each completed by the GPU before the next begins, the last
  \<open>EndFrame\<close> draws the value 0, the sentinel, after \<open>2 ^ 64 - 1\<close>.
\<close>

theorem fence_counter_wraps:
  "Renderer_ctor ex_ctor_env ex_config ex_device0 = Constructed (ex_renderer, ex_device)
   \<and> (\<exists>r d. run (concat (map frame_then_complete [0..<2 ^ 64])) (ex_renderer, ex_device)
               = Returns (r, d)
          \<and> length (drawn_values (calls d)) = 2 ^ 64
          \<and> drawn_values (calls d) ! 0 = 1
          \<and> drawn_values (calls d) ! (2 ^ 64 - 1) = 0
          \<and> \<not> sorted_wrt (<) (drawn_values (calls d)))"
proof -
  from run_frames_completed[of ex_renderer "\<lparr>GetBufferCount = 2\<rparr>" "ex_pool ! 0" "ex_pool ! 1" 1
      ex_device 0 "2 ^ 64"]
  obtain r d where
    run: "run (concat (map frame_then_complete [0..<2 ^ 64])) (ex_renderer, ex_device)
            = Returns (r, d)"
    and dv: "drawn_values (calls d) = map (\<lambda>j. (1 :: UINT64) + word_of_nat j) [0..<2 ^ 64]"
    by (auto simp: ex_defs)
  have len: "length (drawn_values (calls d)) = 2 ^ 64"
    using dv by simp
  have first: "drawn_values (calls d) ! 0 = 1"
    using dv by (simp add: nth_map_upt del: upt_Suc)
  have "(1 :: UINT64) + word_of_nat (2 ^ 64 - 1) = word_of_nat (Suc (2 ^ 64 - 1))"
    by (simp del: of_nat_diff)
  also have "\<dots> = word_of_nat (2 ^ 64)" by simp
  also have "\<dots> = (0 :: UINT64)" by simp
  finally have w: "(1 :: UINT64) + word_of_nat (2 ^ 64 - 1) = 0" .
  have last: "drawn_values (calls d) ! (2 ^ 64 - 1) = 0"
    using dv w by (simp add: nth_map_upt del: upt_Suc of_nat_diff)
  have "\<not> sorted_wrt (<) (drawn_values (calls d))"
  proof
    assume "sorted_wrt (<) (drawn_values (calls d))"
    from sorted_wrt_nth_less[OF this, of 0 "2 ^ 64 - 1"] len
    have "drawn_values (calls d) ! 0 < drawn_values (calls d) ! (2 ^ 64 - 1)"
      by simp
    with first last show False by simp
  qed
  with run len first last ex_ctor show ?thesis by blast
qed

subsection \<open>\<open>EndFrame\<close> when closing the command list fails\<close>

text \<open>
  C5. When closing the command list fails in \<open>EndFrame\<close> (called on a renderer whose
  current frame index is in range and whose swap chain exists), the call returns having
  made no \<open>ExecuteCommandLists\<close>, no \<open>Signal\<close> and no \<open>Present\<close> call: no fence value is
  drawn (the counter \<open>m_nextFenceValue\<close> is what it was) and none is signalled, the recorded
  \<open>fenceValue\<close> of every slot is what it was, and the failure is printed.
\<close>

theorem EndFrame_close_failure_no_submission:
  assumes "unat (m_currentFrameIndex r) < length (m_frameResources r)"
    and "m_swapChain r = Some sc"
    and "\<not> closeOk env"
  shows "\<exists>r' d'. EndFrame env config (r, d) = Returns (r', d')
           \<and> (\<forall>cl. ExecuteCommandLists cl \<notin> set (new_calls d d'))
           \<and> (\<forall>f v. Queue_Signal f v \<notin> set (new_calls d d'))
           \<and> (\<forall>v. SwapChain_Present v \<notin> set (new_calls d d'))
           \<and> drawn_values (calls d') = drawn_values (calls d)
           \<and> m_nextFenceValue r' = m_nextFenceValue r
           \<and> map fenceValue (m_frameResources r') = map fenceValue (m_frameResources r)
           \<and> Failed_to_close_command_list (m_currentFrameIndex r)
               \<in> set (diagnostics (new_calls d d'))"
  using assms by (simp add: EndFrame_def emit_def Let_def new_calls_def)

theorem EndFrame_close_failure_no_submission_witness:
  "unat (m_currentFrameIndex ex_renderer_busy) < length (m_frameResources ex_renderer_busy)
   \<and> m_swapChain ex_renderer_busy = Some \<lparr>GetBufferCount = 2\<rparr>
   \<and> \<not> closeOk (ex_end\<lparr>closeOk := False\<rparr>)
   \<and> (\<exists>r' d'. EndFrame (ex_end\<lparr>closeOk := False\<rparr>) ex_config (ex_renderer_busy, ex_device_busy)
                 = Returns (r', d')
         \<and> drawn_values (calls d') = [1, 2]
         \<and> m_nextFenceValue r' = 3
         \<and> map fenceValue (m_frameResources r') = [1, 2])"
  using EndFrame_close_failure_no_submission
    [of ex_renderer_busy "\<lparr>GetBufferCount = 2\<rparr>" "ex_end\<lparr>closeOk := False\<rparr>" ex_config
        ex_device_busy]
  by (auto simp: ex_defs)

subsection \<open>\<open>IsFrameComplete\<close>\<close>

text \<open>
  C6. \<open>IsFrameComplete\<close> returns true exactly when the index is out of range, or the slot's
  \<open>fenceValue\<close> is the sentinel 0, or the completed value of the slot's fence has reached
  the slot's \<open>fenceValue\<close>. The call returns at once (it is never \<open>Blocked\<close>), and it yields
  nothing but the answer: the renderer and the device are only read. The fence pointer is
  dereferenced when the slot is in range with a non-zero \<open>fenceValue\<close>, so it is assumed
  not to be null there.
\<close>

theorem IsFrameComplete_iff:
  assumes "unat frameIndex < length (m_frameResources r) \<Longrightarrow>
           fenceValue (m_frameResources r ! unat frameIndex) \<noteq> 0 \<Longrightarrow>
           frameFence (m_frameResources r ! unat frameIndex) = Some f"
  shows "IsFrameComplete r d frameIndex =
           Returns (length (m_frameResources r) \<le> unat frameIndex
                    \<or> fenceValue (m_frameResources r ! unat frameIndex) = 0
                    \<or> fenceValue (m_frameResources r ! unat frameIndex) \<le> completedValue d f)"
  using assms by (auto simp: IsFrameComplete_def Let_def)

theorem IsFrameComplete_iff_witness:
  "frameFence (m_frameResources ex_renderer_busy ! unat (1 :: UINT)) = Some 5
   \<and> IsFrameComplete ex_renderer_busy ex_device_busy 1 = Returns False
   \<and> IsFrameComplete ex_renderer_busy (gpu_complete 5 2 ex_device_busy) 1 = Returns True"
  using IsFrameComplete_iff [of 1 ex_renderer_busy 5 ex_device_busy]
    IsFrameComplete_iff [of 1 ex_renderer_busy 5 "gpu_complete 5 2 ex_device_busy"]
  by (simp add: ex_defs gpu_complete_def)

subsection \<open>\<open>OnReconfigure\<close> with a new buffer count\<close>




subsection \<open>\<open>EndFrame\<close> and the outcome of \<open>Present\<close>\<close>

text \<open>
  C8, as the code has it. \<open>EndFrame\<close> discards what \<open>Present\<close> returns: a failure is not
  reported by \<open>EndFrame\<close>, and it changes nothing in the renderer. When the close succeeds
  (on a renderer whose current frame index is in range and whose swap chain exists), the
  fence value is drawn, recorded in the slot and signalled on the queue before \<open>Present\<close>
  is called, and the renderer and the calls made are the same whatever \<open>Present\<close> returns.
\<close>

theorem EndFrame_present_outcome:
  assumes "unat (m_currentFrameIndex r) < length (m_frameResources r)"
    and "m_swapChain r = Some sc"
    and "closeOk env"
  shows "EndFrame (env\<lparr>presentOk := p\<rparr>) config (r, d) =
           Returns
            (r\<lparr>m_nextFenceValue := m_nextFenceValue r + 1,
               m_frameResources := (m_frameResources r)
                 [unat (m_currentFrameIndex r) :=
                    (m_frameResources r ! unat (m_currentFrameIndex r))
                      \<lparr>fenceValue := m_nextFenceValue r\<rparr>]\<rparr>,
             d\<lparr>calls := calls d @
               [TransitionBarrier D3D12_RESOURCE_STATE_RENDER_TARGET D3D12_RESOURCE_STATE_PRESENT,
                CommandList_Close (m_commandList r),
                ExecuteCommandLists (m_commandList r),
                Queue_Signal (frameFence (m_frameResources r ! unat (m_currentFrameIndex r)))
                  (m_nextFenceValue r)]
               @ (if signalOk env then []
                  else [Printf (Failed_to_signal_fence (m_currentFrameIndex r))])
               @ [ResourceManager_EndFrame, SwapChain_Present (vsync config)]\<rparr>)"
  using assms by (simp add: EndFrame_def emit_def Let_def)

theorem EndFrame_present_outcome_witness:
  "unat (m_currentFrameIndex ex_renderer) < length (m_frameResources ex_renderer)
   \<and> m_swapChain ex_renderer = Some \<lparr>GetBufferCount = 2\<rparr>
   \<and> closeOk ex_end
   \<and> EndFrame (ex_end\<lparr>presentOk := False\<rparr>) ex_config (ex_renderer, ex_device)
       = EndFrame (ex_end\<lparr>presentOk := True\<rparr>) ex_config (ex_renderer, ex_device)"
  using EndFrame_present_outcome
      [of ex_renderer "\<lparr>GetBufferCount = 2\<rparr>" ex_end False ex_config ex_device]
    EndFrame_present_outcome
      [of ex_renderer "\<lparr>GetBufferCount = 2\<rparr>" ex_end True ex_config ex_device]
  by (simp add: ex_defs)

text \<open>
  The claim as the spec has it, that a present failure is reported, fails: with a failing
  \<open>Present\<close> the frame in slot 0 of the example renderer prints nothing.
\<close>

theorem EndFrame_present_failure_not_reported:
  "EndFrame (ex_end\<lparr>presentOk := False\<rparr>) ex_config (ex_renderer, ex_device) =
     Returns
       (ex_renderer\<lparr>m_nextFenceValue := 2,
          m_frameResources := [(ex_pool ! 0)\<lparr>fenceValue := 1\<rparr>, ex_pool ! 1]\<rparr>,
        ex_device\<lparr>calls := calls ex_device @
          [TransitionBarrier D3D12_RESOURCE_STATE_RENDER_TARGET D3D12_RESOURCE_STATE_PRESENT,
           CommandList_Close 7, ExecuteCommandLists 7, Queue_Signal (Some 2) 1,
           ResourceManager_EndFrame, SwapChain_Present True]\<rparr>)
   \<and> diagnostics
        [TransitionBarrier D3D12_RESOURCE_STATE_RENDER_TARGET D3D12_RESOURCE_STATE_PRESENT,
         CommandList_Close 7, ExecuteCommandLists 7, Queue_Signal (Some 2) 1,
         ResourceManager_EndFrame, SwapChain_Present True] = []"
  by (simp add: ex_defs EndFrame_def emit_def Let_def)

subsection \<open>\<open>OnReconfigure\<close> with \<open>bufferCount = 0\<close>\<close>

text \<open>
  C9. \<open>OnReconfigure\<close> with \<open>bufferCount = 0\<close> takes the swap chain's present buffer count
  as the new one: when the call returns, the pool of frame resources is the one it was,
  slot for slot (allocators, fences, events and recorded fence values), the fence value
  counter and the current frame index are unchanged, and no device object was created.
\<close>

theorem OnReconfigure_zero_keeps_pool:
  assumes "OnReconfigure env width height 0 (r, d) = Returns (r', d')"
  shows "m_frameResources r' = m_frameResources r
         \<and> m_nextFenceValue r' = m_nextFenceValue r
         \<and> m_currentFrameIndex r' = m_currentFrameIndex r
         \<and> nextHandle d' = nextHandle d"
  using assms
  by (auto simp: OnReconfigure_def Let_def emit_def
           split: option.splits outcome.splits if_splits dest!: WaitForAllFrames_Returns)

theorem OnReconfigure_zero_keeps_pool_witness:
  "OnReconfigure ex_reconfigure_env 1024 768 0 (ex_renderer, ex_device)
     = Returns (ex_renderer\<lparr>m_swapChain := Some \<lparr>GetBufferCount = 3\<rparr>\<rparr>,
                ex_device\<lparr>calls := calls ex_device @ [SwapChain_Reconfigure 1024 768 0]\<rparr>)
   \<and> m_frameResources (ex_renderer\<lparr>m_swapChain := Some \<lparr>GetBufferCount = 3\<rparr>\<rparr>) = ex_pool"
  using OnReconfigure_zero_keeps_pool
    [of ex_reconfigure_env 1024 768 ex_renderer ex_device
        "ex_renderer\<lparr>m_swapChain := Some \<lparr>GetBufferCount = 3\<rparr>\<rparr>"
        "ex_device\<lparr>calls := calls ex_device @ [SwapChain_Reconfigure 1024 768 0]\<rparr>"]
  by (simp add: ex_defs OnReconfigure_def WaitForAllFrames_def WaitForFrame_def emit_def
        Let_def upt_2)

subsection \<open>\<open>EndFrame\<close> when closing fails: nothing else happens\<close>

text \<open>
  C10. When closing the command list fails in \<open>EndFrame\<close>, the renderer is returned as it
  was, field for field (so \<open>m_nextFenceValue\<close> is not advanced), and the calls made are
  the transition barrier, the close and the diagnostic, and no others: the resource
  manager is not told of the end of the frame.
\<close>

theorem EndFrame_close_failure_only_effect:
  assumes "unat (m_currentFrameIndex r) < length (m_frameResources r)"
    and "m_swapChain r = Some sc"
    and "\<not> closeOk env"
  shows "EndFrame env config (r, d) =
           Returns (r, d\<lparr>calls := calls d @
             [TransitionBarrier D3D12_RESOURCE_STATE_RENDER_TARGET D3D12_RESOURCE_STATE_PRESENT,
              CommandList_Close (m_commandList r),
              Printf (Failed_to_close_command_list (m_currentFrameIndex r))]\<rparr>)"
  using assms by (simp add: EndFrame_def emit_def Let_def)

theorem EndFrame_close_failure_only_effect_witness:
  "unat (m_currentFrameIndex ex_renderer) < length (m_frameResources ex_renderer)
   \<and> m_swapChain ex_renderer = Some \<lparr>GetBufferCount = 2\<rparr>
   \<and> \<not> closeOk (ex_end\<lparr>closeOk := False\<rparr>)
   \<and> EndFrame (ex_end\<lparr>closeOk := False\<rparr>) ex_config (ex_renderer, ex_device) =
       Returns (ex_renderer, ex_device\<lparr>calls := calls ex_device @
          [TransitionBarrier D3D12_RESOURCE_STATE_RENDER_TARGET D3D12_RESOURCE_STATE_PRESENT,
           CommandList_Close 7, Printf (Failed_to_close_command_list 0)]\<rparr>)"
  using EndFrame_close_failure_only_effect
    [of ex_renderer "\<lparr>GetBufferCount = 2\<rparr>" "ex_end\<lparr>closeOk := False\<rparr>" ex_config ex_device]
  by (simp add: ex_defs)

end
